theory Spec2Isabelle
  imports Main "HOL-Library.Word"
begin

unbundle bit_operations_syntax

section \<open>Common types\<close>

text \<open>
  \<open>std::size_t\<close> is a 64-bit unsigned integer on every target of this code base (the
  provider uses \<open>__uint128_t\<close>, which exists on 64-bit targets only). Arithmetic on it
  wraps around.
\<close>

type_synonym size_t = "64 word"

text \<open>
  Exceptions, failed assertions and undefined behaviour of the C++ are values:
  \<open>runtime_error\<close> is \<open>std::runtime_error\<close> with its message, \<open>out_of_range\<close> is what
  \<open>std::vector::at\<close> throws, \<open>assertion_failed\<close> is a failing \<open>assert\<close>, and
  \<open>undefined_behaviour\<close> stands for a null dereference, \<open>front()\<close> of an empty list or a
  read past the end of a buffer.
\<close>

datatype error = runtime_error string | out_of_range | assertion_failed | undefined_behaviour

section \<open>The circuit registry: class Core\<close>

text \<open>
  A \<open>shared_ptr\<close> is an \<open>option\<close>: \<open>None\<close> is \<open>nullptr\<close>. The field
  \<open>config_my_id\<close> is what \<open>config_->GetMyId()\<close> returns. A communication handler is
  modelled by the list of messages handed to its \<open>SendMessage\<close>, oldest first. The logger is
  modelled by the gate ids that \<open>AddToActiveQueue\<close> traces.
\<close>

record ('g, 'w, 'm) Core =
  config_my_id :: size_t
  global_gate_id :: size_t
  global_wire_id :: size_t
  global_arithmetic_sharing_id :: size_t
  global_gmw_sharing_id :: size_t
  evaluated_gates :: size_t
  active_gates :: "size_t list"
  input_gates :: "'g option list"
  gates :: "'g option list"
  wires :: "'w option list"
  communication_handlers :: "'m list option list"
  trace_log :: "size_t list"

text \<open>The state after the constructor: all counters zero, all tables empty.\<close>

definition Core_init :: "size_t \<Rightarrow> ('g, 'w, 'm) Core" where
  "Core_init me = \<lparr> config_my_id = me, global_gate_id = 0, global_wire_id = 0,
     global_arithmetic_sharing_id = 0, global_gmw_sharing_id = 0, evaluated_gates = 0,
     active_gates = [], input_gates = [], gates = [], wires = [],
     communication_handlers = [], trace_log = [] \<rparr>"

text \<open>
  Every member function returns its outcome and the registry afterwards. An exception
  leaves the registry as it was and is the outcome \<open>Inl\<close>.
\<close>

datatype ('g, 'w) retval = Unit | Id size_t | GateRef "'g option" | WireRef "'w option"
  | GateList "'g option list" | Int64 int

type_synonym ('g, 'w, 'm) outcome = "(error + ('g, 'w) retval) \<times> ('g, 'w, 'm) Core"

definition NextGateId :: "('g, 'w, 'm) Core \<Rightarrow> ('g, 'w, 'm) outcome" where
  "NextGateId c = (Inr (Id (global_gate_id c)), c\<lparr>global_gate_id := global_gate_id c + 1\<rparr>)"

definition NextWireId :: "('g, 'w, 'm) Core \<Rightarrow> ('g, 'w, 'm) outcome" where
  "NextWireId c = (Inr (Id (global_wire_id c)), c\<lparr>global_wire_id := global_wire_id c + 1\<rparr>)"

definition NextArithmeticSharingId :: "size_t \<Rightarrow> ('g, 'w, 'm) Core \<Rightarrow> ('g, 'w, 'm) outcome" where
  "NextArithmeticSharingId num_of_parallel_values c =
     (if num_of_parallel_values = 0 then (Inl assertion_failed, c)
      else let old_id = global_arithmetic_sharing_id c
           in (Inr (Id old_id),
               c\<lparr>global_arithmetic_sharing_id :=
                   global_arithmetic_sharing_id c + num_of_parallel_values\<rparr>))"

definition NextBooleanGMWSharingId :: "size_t \<Rightarrow> ('g, 'w, 'm) Core \<Rightarrow> ('g, 'w, 'm) outcome" where
  "NextBooleanGMWSharingId num_of_parallel_values c =
     (if num_of_parallel_values = 0 then (Inl assertion_failed, c)
      else let old_id = global_gmw_sharing_id c
           in (Inr (Id old_id),
               c\<lparr>global_gmw_sharing_id := global_gmw_sharing_id c + num_of_parallel_values\<rparr>))"

definition RegisterCommunicationHandlers ::
  "'m list option list \<Rightarrow> ('g, 'w, 'm) Core \<Rightarrow> ('g, 'w, 'm) outcome" where
  "RegisterCommunicationHandlers handlers c = (Inr Unit, c\<lparr>communication_handlers := handlers\<rparr>)"

definition Send :: "size_t \<Rightarrow> 'm \<Rightarrow> ('g, 'w, 'm) Core \<Rightarrow> ('g, 'w, 'm) outcome" where
  "Send party_id message c =
     (if party_id = config_my_id c then (Inl (runtime_error ''Want to send message to myself''), c)
      else if length (communication_handlers c) \<le> unat party_id then (Inl out_of_range, c)
      else case communication_handlers c ! unat party_id of
             None \<Rightarrow> (Inl undefined_behaviour, c)
           | Some delivered \<Rightarrow>
               (Inr Unit,
                c\<lparr>communication_handlers :=
                    (communication_handlers c)[unat party_id := Some (delivered @ [message])]\<rparr>))"

definition RegisterNextGate :: "'g option \<Rightarrow> ('g, 'w, 'm) Core \<Rightarrow> ('g, 'w, 'm) outcome" where
  "RegisterNextGate gate c =
     (if gate = None then (Inl assertion_failed, c)
      else (Inr Unit, c\<lparr>gates := gates c @ [gate]\<rparr>))"

definition RegisterNextInputGate :: "'g option \<Rightarrow> ('g, 'w, 'm) Core \<Rightarrow> ('g, 'w, 'm) outcome" where
  "RegisterNextInputGate gate c =
     (case RegisterNextGate gate c of
        (Inl e, c') \<Rightarrow> (Inl e, c')
      | (Inr _, c') \<Rightarrow>
          (if gate = None then (Inl assertion_failed, c')
           else (Inr Unit, c'\<lparr>input_gates := input_gates c' @ [gate]\<rparr>)))"

definition GetGate :: "size_t \<Rightarrow> ('g, 'w, 'm) Core \<Rightarrow> ('g, 'w, 'm) outcome" where
  "GetGate gate_id c =
     (if length (gates c) \<le> unat gate_id then (Inl out_of_range, c)
      else (Inr (GateRef (gates c ! unat gate_id)), c))"

definition GetInputGates :: "('g, 'w, 'm) Core \<Rightarrow> ('g, 'w, 'm) outcome" where
  "GetInputGates c = (Inr (GateList (input_gates c)), c)"

definition UnregisterGate :: "size_t \<Rightarrow> ('g, 'w, 'm) Core \<Rightarrow> ('g, 'w, 'm) outcome" where
  "UnregisterGate gate_id c =
     (if length (gates c) \<le> unat gate_id then (Inl out_of_range, c)
      else (Inr Unit, c\<lparr>gates := (gates c)[unat gate_id := None]\<rparr>))"

definition RegisterNextWire :: "'w option \<Rightarrow> ('g, 'w, 'm) Core \<Rightarrow> ('g, 'w, 'm) outcome" where
  "RegisterNextWire wire c = (Inr Unit, c\<lparr>wires := wires c @ [wire]\<rparr>)"

definition GetWire :: "size_t \<Rightarrow> ('g, 'w, 'm) Core \<Rightarrow> ('g, 'w, 'm) outcome" where
  "GetWire wire_id c =
     (if length (wires c) \<le> unat wire_id then (Inl out_of_range, c)
      else (Inr (WireRef (wires c ! unat wire_id)), c))"

definition UnregisterWire :: "size_t \<Rightarrow> ('g, 'w, 'm) Core \<Rightarrow> ('g, 'w, 'm) outcome" where
  "UnregisterWire wire_id c =
     (if length (wires c) \<le> unat wire_id then (Inl out_of_range, c)
      else (Inr Unit, c\<lparr>wires := (wires c)[unat wire_id := None]\<rparr>))"

text \<open>
  The two queue operations as one thread runs them alone. \<open>static_cast<std::int64_t>\<close>
  reads the 64 bits as two's complement.
\<close>

definition AddToActiveQueue :: "size_t \<Rightarrow> ('g, 'w, 'm) Core \<Rightarrow> ('g, 'w, 'm) outcome" where
  "AddToActiveQueue gate_id c =
     (Inr Unit, c\<lparr>active_gates := active_gates c @ [gate_id],
                  trace_log := trace_log c @ [gate_id]\<rparr>)"

definition GetNextGateFromOnlineQueue :: "('g, 'w, 'm) Core \<Rightarrow> ('g, 'w, 'm) outcome" where
  "GetNextGateFromOnlineQueue c =
     (case active_gates c of
        [] \<Rightarrow> (Inr (Int64 (- 1)), c)
      | gate_id # rest \<Rightarrow>
          (if \<not> gate_id < - 1 then (Inl assertion_failed, c)
           else (Inr (Int64 (sint gate_id)), c\<lparr>active_gates := rest\<rparr>)))"

definition IncrementEvaluatedGatesCounter :: "('g, 'w, 'm) Core \<Rightarrow> ('g, 'w, 'm) outcome" where
  "IncrementEvaluatedGatesCounter c = (Inr Unit, c\<lparr>evaluated_gates := evaluated_gates c + 1\<rparr>)"

definition GetNumOfEvaluatedGates :: "('g, 'w, 'm) Core \<Rightarrow> ('g, 'w, 'm) outcome" where
  "GetNumOfEvaluatedGates c = (Inr (Id (evaluated_gates c)), c)"

definition GetTotalNumOfGates :: "('g, 'w, 'm) Core \<Rightarrow> ('g, 'w, 'm) outcome" where
  "GetTotalNumOfGates c = (Inr (Id (global_gate_id c)), c)"

text \<open>A call of a member function, and a sequence of calls made by one thread.\<close>

datatype ('g, 'w, 'm) call =
    CallNextGateId | CallNextWireId
  | CallNextArithmeticSharingId size_t | CallNextBooleanGMWSharingId size_t
  | CallRegisterCommunicationHandlers "'m list option list" | CallSend size_t 'm
  | CallRegisterNextGate "'g option" | CallRegisterNextInputGate "'g option"
  | CallGetGate size_t | CallGetInputGates | CallUnregisterGate size_t
  | CallRegisterNextWire "'w option" | CallGetWire size_t | CallUnregisterWire size_t
  | CallAddToActiveQueue size_t | CallGetNextGateFromOnlineQueue
  | CallIncrementEvaluatedGatesCounter | CallGetNumOfEvaluatedGates | CallGetTotalNumOfGates

fun perform :: "('g, 'w, 'm) call \<Rightarrow> ('g, 'w, 'm) Core \<Rightarrow> ('g, 'w, 'm) outcome" where
  "perform CallNextGateId c = NextGateId c"
| "perform CallNextWireId c = NextWireId c"
| "perform (CallNextArithmeticSharingId n) c = NextArithmeticSharingId n c"
| "perform (CallNextBooleanGMWSharingId n) c = NextBooleanGMWSharingId n c"
| "perform (CallRegisterCommunicationHandlers hs) c = RegisterCommunicationHandlers hs c"
| "perform (CallSend p m) c = Send p m c"
| "perform (CallRegisterNextGate g) c = RegisterNextGate g c"
| "perform (CallRegisterNextInputGate g) c = RegisterNextInputGate g c"
| "perform (CallGetGate i) c = GetGate i c"
| "perform CallGetInputGates c = GetInputGates c"
| "perform (CallUnregisterGate i) c = UnregisterGate i c"
| "perform (CallRegisterNextWire w) c = RegisterNextWire w c"
| "perform (CallGetWire i) c = GetWire i c"
| "perform (CallUnregisterWire i) c = UnregisterWire i c"
| "perform (CallAddToActiveQueue i) c = AddToActiveQueue i c"
| "perform CallGetNextGateFromOnlineQueue c = GetNextGateFromOnlineQueue c"
| "perform CallIncrementEvaluatedGatesCounter c = IncrementEvaluatedGatesCounter c"
| "perform CallGetNumOfEvaluatedGates c = GetNumOfEvaluatedGates c"
| "perform CallGetTotalNumOfGates c = GetTotalNumOfGates c"

text \<open>
  \<open>perform_all\<close> makes the calls in order and returns the outcomes, oldest first, with the
  registry after the last call. A caller that catches an exception goes on with the
  registry unchanged.
\<close>

fun perform_all ::
  "('g, 'w, 'm) call list \<Rightarrow> ('g, 'w, 'm) Core
     \<Rightarrow> (error + ('g, 'w) retval) list \<times> ('g, 'w, 'm) Core" where
  "perform_all [] c = ([], c)"
| "perform_all (x # xs) c =
     (case perform x c of (r, c') \<Rightarrow>
        (case perform_all xs c' of (rs, c'') \<Rightarrow> (r # rs, c'')))"

section \<open>The square-pair provider: SpProvider and SpProviderFromOts\<close>

subsection \<open>Bit vectors and the object representation of integers\<close>

text \<open>
  Modelled from the spec: the class \<open>BitVector\<close> is not among the sources. A bit vector that
  carries a message is the byte buffer that \<open>GetData()\<close> returns; the vector of choice bits
  built with \<open>Append\<close> is a list of booleans. The targets of the code base are little-endian,
  so the object representation of an unsigned integer is its bytes, least significant first:
  \<open>bytes_of\<close> is the \<open>BitVector(reinterpret_cast<const std::byte*>(&input), bit_size)\<close> of
  \<open>RegisterHelperSend\<close> and \<open>reinterpret_as\<close> is the
  \<open>*reinterpret_cast<const T*>(...GetData().data())\<close> of the parse helpers, which reads
  \<open>sizeof(T)\<close> bytes; reading a shorter buffer is undefined behaviour.
\<close>

type_synonym BitVector = "8 word list"

fun le_decode :: "8 word list \<Rightarrow> nat" where
  "le_decode [] = 0"
| "le_decode (b # bs) = unat b + 256 * le_decode bs"

fun le_encode :: "nat \<Rightarrow> nat \<Rightarrow> 8 word list" where
  "le_encode 0 v = []"
| "le_encode (Suc k) v = word_of_nat (v mod 256) # le_encode k (v div 256)"

definition bytes_of :: "'a::len word \<Rightarrow> BitVector" where
  "bytes_of x = le_encode (LENGTH('a) div 8) (unat x)"

definition reinterpret_as :: "BitVector \<Rightarrow> error + 'a::len word" where
  "reinterpret_as bv =
     (if length bv < LENGTH('a) div 8 then Inl undefined_behaviour
      else Inr (word_of_nat (le_decode (take (LENGTH('a) div 8) bv))))"

text \<open>\<open>std::vector::at\<close> with its range check.\<close>

definition at :: "'x list \<Rightarrow> nat \<Rightarrow> error + 'x" where
  "at xs i = (if i < length xs then Inr (xs ! i) else Inl out_of_range)"

text \<open>
  Products and sums of \<open>std::size_t\<close> and \<open>unsigned long long\<close> values wrap around at
  \<open>2 ^ 64\<close>. Indices into a vector that have been compared with its size are natural
  numbers.
\<close>

definition wrap64 :: "nat \<Rightarrow> nat" where
  "wrap64 n = n mod 2 ^ 64"

text \<open>
  \<open>SpVector<T>\<close> holds the two vectors \<open>a\<close> and \<open>c\<close>; the fields are called \<open>sp_a\<close> and
  \<open>sp_c\<close> here.
\<close>

record 'e SpVector =
  sp_a :: "'e list"
  sp_c :: "'e list"

text \<open>
  Modelled from the spec: the OT provider and its handles are not among the sources. A
  handle records what it was registered with (\<open>register_send(vector_length,
  message_count, AcOt)\<close>), what the provider set (\<open>set_inputs\<close>, \<open>set_choices\<close>), whether
  \<open>send_messages\<close> or \<open>send_corrections\<close> was called, and the vector that \<open>get_outputs\<close>
  returns, which the OT layer writes.
\<close>

record OtVectorSender =
  snd_bitlen :: nat
  snd_num_ots :: nat
  snd_inputs :: "BitVector list"
  snd_outputs :: "BitVector list"
  messages_sent :: bool

record OtVectorReceiver =
  rcv_bitlen :: nat
  rcv_num_ots :: nat
  rcv_choices :: "bool list"
  rcv_outputs :: "BitVector list"
  corrections_sent :: bool

definition RegisterSend :: "nat \<Rightarrow> nat \<Rightarrow> OtVectorSender" where
  "RegisterSend bit_size number_of_ots =
     \<lparr> snd_bitlen = bit_size, snd_num_ots = number_of_ots, snd_inputs = [], snd_outputs = [],
       messages_sent = False \<rparr>"

definition RegisterReceive :: "nat \<Rightarrow> nat \<Rightarrow> OtVectorReceiver" where
  "RegisterReceive bit_size number_of_ots =
     \<lparr> rcv_bitlen = bit_size, rcv_num_ots = number_of_ots, rcv_choices = [], rcv_outputs = [],
       corrections_sent = False \<rparr>"

definition SetInputs :: "BitVector list \<Rightarrow> OtVectorSender \<Rightarrow> OtVectorSender" where
  "SetInputs v ot = ot\<lparr>snd_inputs := v\<rparr>"

definition SetChoices :: "bool list \<Rightarrow> OtVectorReceiver \<Rightarrow> OtVectorReceiver" where
  "SetChoices v ot = ot\<lparr>rcv_choices := v\<rparr>"

definition SendMessages :: "OtVectorSender \<Rightarrow> OtVectorSender" where
  "SendMessages ot = ot\<lparr>messages_sent := True\<rparr>"

definition SendCorrections :: "OtVectorReceiver \<Rightarrow> OtVectorReceiver" where
  "SendCorrections ot = ot\<lparr>corrections_sent := True\<rparr>"

text \<open>
  What \<open>Setup\<close> and \<open>PreSetup\<close> do to the statistics sink, the completion mutex and the
  completion condition is a trace of events, oldest first. \<open>SetFinished\<close> marks the
  assignment \<open>finished_ = true\<close>. The debug log lines (\<open>kDebug\<close>) are left out.
\<close>

datatype StatisticsId = kSpPresetup | kSpSetup

datatype event = RecordStart StatisticsId | RecordEnd StatisticsId
  | LockMutex | SetFinished | UnlockMutex | NotifyAll

text \<open>
  The provider. \<open>ot_providers_size\<close> is \<open>ot_providers_.size()\<close>, the number of parties.
\<close>

record SpProviderFromOts =
  my_id :: nat
  number_of_sps_8 :: size_t
  number_of_sps_16 :: size_t
  number_of_sps_32 :: size_t
  number_of_sps_64 :: size_t
  number_of_sps_128 :: size_t
  sps_8 :: "8 word SpVector"
  sps_16 :: "16 word SpVector"
  sps_32 :: "32 word SpVector"
  sps_64 :: "64 word SpVector"
  sps_128 :: "128 word SpVector"
  finished :: bool
  ot_providers_size :: nat
  ots_receiver :: "OtVectorReceiver list list"
  ots_sender :: "OtVectorSender list list"
  events :: "event list"

text \<open>
  Modelled from the spec: the header that declares the fields is not among the sources.
  After the constructor nothing is requested, the batches are empty, the completion flag
  is false and each of the two handle tables has one empty list per party.
\<close>

definition SpProviderFromOts_init :: "nat \<Rightarrow> nat \<Rightarrow> SpProviderFromOts" where
  "SpProviderFromOts_init parties me =
     \<lparr> my_id = me, number_of_sps_8 = 0, number_of_sps_16 = 0, number_of_sps_32 = 0,
       number_of_sps_64 = 0, number_of_sps_128 = 0,
       sps_8 = \<lparr>sp_a = [], sp_c = []\<rparr>, sps_16 = \<lparr>sp_a = [], sp_c = []\<rparr>,
       sps_32 = \<lparr>sp_a = [], sp_c = []\<rparr>, sps_64 = \<lparr>sp_a = [], sp_c = []\<rparr>,
       sps_128 = \<lparr>sp_a = [], sp_c = []\<rparr>,
       finished = False, ot_providers_size = parties,
       ots_receiver = replicate parties [], ots_sender = replicate parties [], events = [] \<rparr>"

text \<open>
  Modelled from the spec: the request counts are set during circuit build, by code of the
  header; \<open>requested\<close> is the provider after the circuit build has asked for \<open>n\<close>.
\<close>

record sp_requests =
  req_8 :: size_t
  req_16 :: size_t
  req_32 :: size_t
  req_64 :: size_t
  req_128 :: size_t

definition requested :: "sp_requests \<Rightarrow> SpProviderFromOts \<Rightarrow> SpProviderFromOts" where
  "requested n st = st\<lparr>number_of_sps_8 := req_8 n, number_of_sps_16 := req_16 n,
     number_of_sps_32 := req_32 n, number_of_sps_64 := req_64 n, number_of_sps_128 := req_128 n\<rparr>"

definition NeedSps :: "SpProviderFromOts \<Rightarrow> bool" where
  "NeedSps st \<longleftrightarrow>
     0 < number_of_sps_8 st + number_of_sps_16 st + number_of_sps_32 st + number_of_sps_64 st
           + number_of_sps_128 st"

text \<open>The predicate of the \<open>FiberCondition\<close> that the constructor creates.\<close>

definition completion_condition :: "SpProviderFromOts \<Rightarrow> bool" where
  "completion_condition st = finished st"

text \<open>
  A member function that can throw returns the error, if any, and the state at that
  moment: what it had written before the exception stays written. A result \<open>None\<close> of a
  batch loop or of one of its callers means that the call does not return.
\<close>

type_synonym 's res = "error option \<times> 's"

fun for_loop :: "nat list \<Rightarrow> (nat \<Rightarrow> 's \<Rightarrow> 's res) \<Rightarrow> 's \<Rightarrow> 's res" where
  "for_loop [] body s = (None, s)"
| "for_loop (i # rest) body s =
     (case body i s of (Some e, s') \<Rightarrow> (Some e, s') | (None, s') \<Rightarrow> for_loop rest body s')"

fun for_each_peer :: "nat list \<Rightarrow> (nat \<Rightarrow> 's \<Rightarrow> 's res option) \<Rightarrow> 's \<Rightarrow> 's res option" where
  "for_each_peer [] body s = Some (None, s)"
| "for_each_peer (i # rest) body s =
     (case body i s of
        None \<Rightarrow> None
      | Some (Some e, s') \<Rightarrow> Some (Some e, s')
      | Some (None, s') \<Rightarrow> for_each_peer rest body s')"

definition and_then :: "'s res option \<Rightarrow> ('s \<Rightarrow> 's res option) \<Rightarrow> 's res option" where
  "and_then r f =
     (case r of None \<Rightarrow> None | Some (Some e, s) \<Rightarrow> Some (Some e, s) | Some (None, s) \<Rightarrow> f s)"

text \<open>
  Modelled from the spec: \<open>RandomVector<T>(n)\<close> is not among the sources; it returns \<open>n\<close>
  values sampled at random, here the first \<open>n\<close> values of a stream that is a parameter.
\<close>

record RandomSource =
  random_8 :: "nat \<Rightarrow> 8 word"
  random_16 :: "nat \<Rightarrow> 16 word"
  random_32 :: "nat \<Rightarrow> 32 word"
  random_64 :: "nat \<Rightarrow> 64 word"
  random_128 :: "nat \<Rightarrow> 128 word"

definition RandomVector :: "(nat \<Rightarrow> 'e) \<Rightarrow> nat \<Rightarrow> 'e list" where
  "RandomVector rnd n = map rnd [0..<n]"

text \<open>
  The lambda of \<open>GenerateRandomPairs\<close> returns \<open>a_i * a_i\<close>. For \<open>std::uint8_t\<close> and
  \<open>std::uint16_t\<close> both operands are promoted to \<open>int\<close>, of 32 bits, and the product is an
  \<open>int\<close>: its overflow, for \<open>a_i \<ge> 46341\<close>, is undefined behaviour, and otherwise the
  product is converted back on the assignment. For the wider types the product is taken in
  the unsigned type and wraps around. \<open>resize\<close> is \<open>std::vector::resize\<close>.
\<close>

definition square :: "'a::len word \<Rightarrow> error + 'a word" where
  "square a_i =
     (if LENGTH('a) < 32
      then (if unat a_i * unat a_i < 2 ^ 31 then Inr (word_of_nat (unat a_i * unat a_i))
            else Inl undefined_behaviour)
      else Inr (a_i * a_i))"

definition resize :: "nat \<Rightarrow> 'a::len word list \<Rightarrow> 'a word list" where
  "resize n xs = take n xs @ replicate (n - length xs) 0"

definition GenerateRandomPairs ::
  "(nat \<Rightarrow> 'a::len word) \<Rightarrow> 'a word SpVector \<Rightarrow> nat \<Rightarrow> 'a word SpVector res" where
  "GenerateRandomPairs rnd sps number_of_sps =
     (if 0 < number_of_sps
      then for_loop [0..<number_of_sps] (\<lambda>i sps.
             case square (sp_a sps ! i) of
               Inl e \<Rightarrow> (Some e, sps)
             | Inr product \<Rightarrow> (None, sps\<lparr>sp_c := (sp_c sps)[i := product]\<rparr>))
             (sps\<lparr>sp_a := RandomVector rnd number_of_sps,
                  sp_c := resize number_of_sps (sp_c sps)\<rparr>)
      else (None, sps))"

text \<open>
  The two nested loops of \<open>RegisterHelperSend\<close> that fill \<open>vector_to_send\<close>, and the batch
  loop around them. The batch loop does not advance when \<open>max_batch_size\<close> is zero.
\<close>

definition RegisterHelperSend_inputs ::
  "'a::len word SpVector \<Rightarrow> nat \<Rightarrow> nat \<Rightarrow> BitVector list res" where
  "RegisterHelperSend_inputs sps sp_id batch_size =
     for_loop [0..<batch_size] (\<lambda>k.
       for_loop [0..<LENGTH('a)] (\<lambda>bit_i vector_to_send.
         case at (sp_a sps) (sp_id + k) of
           Inl e \<Rightarrow> (Some e, vector_to_send)
         | Inr a_k \<Rightarrow> (None, vector_to_send @ [bytes_of (push_bit bit_i a_k)]))) []"

partial_function (option) RegisterHelperSend_from ::
  "OtVectorSender list \<Rightarrow> nat \<Rightarrow> 'a::len word SpVector \<Rightarrow> nat \<Rightarrow> nat
     \<Rightarrow> OtVectorSender list res option" where
  "RegisterHelperSend_from ots max_batch_size sps number_of_sps sp_id =
     (if sp_id < number_of_sps then
        (let batch_size = min max_batch_size (number_of_sps - sp_id);
             ot_to_send = RegisterSend LENGTH('a) (wrap64 (batch_size * LENGTH('a)))
         in case RegisterHelperSend_inputs sps sp_id batch_size of
              (Some e, vector_to_send) \<Rightarrow> Some (Some e, ots)
            | (None, vector_to_send) \<Rightarrow>
                RegisterHelperSend_from (ots @ [SetInputs vector_to_send ot_to_send])
                  max_batch_size sps number_of_sps (sp_id + batch_size))
      else Some (None, ots))"

definition RegisterHelperSend ::
  "OtVectorSender list \<Rightarrow> nat \<Rightarrow> 'a::len word SpVector \<Rightarrow> nat
     \<Rightarrow> OtVectorSender list res option" where
  "RegisterHelperSend ots max_batch_size sps number_of_sps =
     RegisterHelperSend_from ots max_batch_size sps number_of_sps 0"

definition RegisterHelperReceptor_choices ::
  "'a::len word SpVector \<Rightarrow> nat \<Rightarrow> nat \<Rightarrow> bool list res" where
  "RegisterHelperReceptor_choices sps sp_id batch_size =
     for_loop [0..<batch_size] (\<lambda>k.
       for_loop [0..<LENGTH('a)] (\<lambda>bit_i choices.
         case at (sp_a sps) (sp_id + k) of
           Inl e \<Rightarrow> (Some e, choices)
         | Inr a_k \<Rightarrow> (None, choices @ [(drop_bit bit_i a_k AND 1) = 1]))) []"

partial_function (option) RegisterHelperReceptor_from ::
  "OtVectorReceiver list \<Rightarrow> nat \<Rightarrow> 'a::len word SpVector \<Rightarrow> nat \<Rightarrow> nat
     \<Rightarrow> OtVectorReceiver list res option" where
  "RegisterHelperReceptor_from ots max_batch_size sps number_of_sps sp_id =
     (if sp_id < number_of_sps then
        (let batch_size = min max_batch_size (number_of_sps - sp_id);
             ot_to_receive = RegisterReceive LENGTH('a) (wrap64 (batch_size * LENGTH('a)))
         in case RegisterHelperReceptor_choices sps sp_id batch_size of
              (Some e, choices) \<Rightarrow> Some (Some e, ots)
            | (None, choices) \<Rightarrow>
                RegisterHelperReceptor_from (ots @ [SetChoices choices ot_to_receive])
                  max_batch_size sps number_of_sps (sp_id + batch_size))
      else Some (None, ots))"

definition RegisterHelperReceptor ::
  "OtVectorReceiver list \<Rightarrow> nat \<Rightarrow> 'a::len word SpVector \<Rightarrow> nat
     \<Rightarrow> OtVectorReceiver list res option" where
  "RegisterHelperReceptor ots max_batch_size sps number_of_sps =
     RegisterHelperReceptor_from ots max_batch_size sps number_of_sps 0"

definition ParseHelperSend_batch ::
  "BitVector list \<Rightarrow> 'a::len word SpVector \<Rightarrow> nat \<Rightarrow> nat \<Rightarrow> 'a word SpVector res" where
  "ParseHelperSend_batch output_to_send sps sp_id batch_size =
     for_loop [0..<batch_size] (\<lambda>j.
       for_loop [0..<LENGTH('a)] (\<lambda>bit_i sps.
         case at output_to_send (wrap64 (j * LENGTH('a) + bit_i)) of
           Inl e \<Rightarrow> (Some e, sps)
         | Inr bv \<Rightarrow>
             (case reinterpret_as bv of
                Inl e \<Rightarrow> (Some e, sps)
              | Inr m \<Rightarrow>
                  (case at (sp_c sps) (sp_id + j) of
                     Inl e \<Rightarrow> (Some e, sps)
                   | Inr c_j \<Rightarrow> (None, sps\<lparr>sp_c := (sp_c sps)[sp_id + j := c_j - 2 * m]\<rparr>))))) sps"

partial_function (option) ParseHelperSend_from ::
  "OtVectorSender list \<Rightarrow> nat \<Rightarrow> 'a::len word SpVector \<Rightarrow> nat \<Rightarrow> nat
     \<Rightarrow> (OtVectorSender list \<times> 'a word SpVector) res option" where
  "ParseHelperSend_from ots max_batch_size sps number_of_sps sp_id =
     (if sp_id < number_of_sps then
        (let batch_size = min max_batch_size (number_of_sps - sp_id)
         in case ots of
              [] \<Rightarrow> Some (Some undefined_behaviour, ots, sps)
            | ot_to_send # remaining \<Rightarrow>
                (case ParseHelperSend_batch (snd_outputs ot_to_send) sps sp_id batch_size of
                   (Some e, sps') \<Rightarrow> Some (Some e, ots, sps')
                 | (None, sps') \<Rightarrow>
                     ParseHelperSend_from remaining max_batch_size sps' number_of_sps
                       (sp_id + batch_size)))
      else Some (None, ots, sps))"

definition ParseHelperSend ::
  "OtVectorSender list \<Rightarrow> nat \<Rightarrow> 'a::len word SpVector \<Rightarrow> nat
     \<Rightarrow> (OtVectorSender list \<times> 'a word SpVector) res option" where
  "ParseHelperSend ots max_batch_size sps number_of_sps =
     ParseHelperSend_from ots max_batch_size sps number_of_sps 0"

definition ParseHelperReceive_batch ::
  "BitVector list \<Rightarrow> 'a::len word SpVector \<Rightarrow> nat \<Rightarrow> nat \<Rightarrow> 'a word SpVector res" where
  "ParseHelperReceive_batch output_to_receive sps sp_id batch_size =
     for_loop [0..<batch_size] (\<lambda>j.
       for_loop [0..<LENGTH('a)] (\<lambda>bit_i sps.
         case at output_to_receive (wrap64 (j * LENGTH('a) + bit_i)) of
           Inl e \<Rightarrow> (Some e, sps)
         | Inr bv \<Rightarrow>
             (case reinterpret_as bv of
                Inl e \<Rightarrow> (Some e, sps)
              | Inr m \<Rightarrow>
                  (case at (sp_c sps) (sp_id + j) of
                     Inl e \<Rightarrow> (Some e, sps)
                   | Inr c_j \<Rightarrow> (None, sps\<lparr>sp_c := (sp_c sps)[sp_id + j := c_j + 2 * m]\<rparr>))))) sps"

partial_function (option) ParseHelperReceive_from ::
  "OtVectorReceiver list \<Rightarrow> nat \<Rightarrow> 'a::len word SpVector \<Rightarrow> nat \<Rightarrow> nat
     \<Rightarrow> (OtVectorReceiver list \<times> 'a word SpVector) res option" where
  "ParseHelperReceive_from ots max_batch_size sps number_of_sps sp_id =
     (if sp_id < number_of_sps then
        (let batch_size = min max_batch_size (number_of_sps - sp_id)
         in case ots of
              [] \<Rightarrow> Some (Some undefined_behaviour, ots, sps)
            | ot_to_receive # remaining \<Rightarrow>
                (case ParseHelperReceive_batch (rcv_outputs ot_to_receive) sps sp_id batch_size of
                   (Some e, sps') \<Rightarrow> Some (Some e, ots, sps')
                 | (None, sps') \<Rightarrow>
                     ParseHelperReceive_from remaining max_batch_size sps' number_of_sps
                       (sp_id + batch_size)))
      else Some (None, ots, sps))"

definition ParseHelperReceive ::
  "OtVectorReceiver list \<Rightarrow> nat \<Rightarrow> 'a::len word SpVector \<Rightarrow> nat
     \<Rightarrow> (OtVectorReceiver list \<times> 'a word SpVector) res option" where
  "ParseHelperReceive ots max_batch_size sps number_of_sps =
     ParseHelperReceive_from ots max_batch_size sps number_of_sps 0"

subsection \<open>RegisterOts, ParseOutputs, PreSetup and Setup\<close>

text \<open>
  \<open>with_sender_list i st f store\<close> calls a helper \<open>f\<close> on \<open>ots_sender_.at(i)\<close>, which the
  helper takes by reference, and stores what else the helper has written.
\<close>

definition record_event :: "event \<Rightarrow> SpProviderFromOts \<Rightarrow> SpProviderFromOts" where
  "record_event e st = st\<lparr>events := events st @ [e]\<rparr>"

definition with_sender_list ::
  "nat \<Rightarrow> SpProviderFromOts \<Rightarrow> (OtVectorSender list \<Rightarrow> (OtVectorSender list \<times> 'v) res option)
     \<Rightarrow> ('v \<Rightarrow> SpProviderFromOts \<Rightarrow> SpProviderFromOts) \<Rightarrow> SpProviderFromOts res option" where
  "with_sender_list i st f store =
     (case at (ots_sender st) i of
        Inl e \<Rightarrow> Some (Some e, st)
      | Inr ots \<Rightarrow>
          (case f ots of
             None \<Rightarrow> None
           | Some (e, ots', v) \<Rightarrow> Some (e, store v (st\<lparr>ots_sender := (ots_sender st)[i := ots']\<rparr>))))"

definition with_receiver_list ::
  "nat \<Rightarrow> SpProviderFromOts \<Rightarrow> (OtVectorReceiver list \<Rightarrow> (OtVectorReceiver list \<times> 'v) res option)
     \<Rightarrow> ('v \<Rightarrow> SpProviderFromOts \<Rightarrow> SpProviderFromOts) \<Rightarrow> SpProviderFromOts res option" where
  "with_receiver_list i st f store =
     (case at (ots_receiver st) i of
        Inl e \<Rightarrow> Some (Some e, st)
      | Inr ots \<Rightarrow>
          (case f ots of
             None \<Rightarrow> None
           | Some (e, ots', v) \<Rightarrow> Some (e, store v (st\<lparr>ots_receiver := (ots_receiver st)[i := ots']\<rparr>))))"

definition registering :: "'l res option \<Rightarrow> ('l \<times> unit) res option" where
  "registering r = map_option (\<lambda>(e, ots). (e, ots, ())) r"

definition RegisterOts_peer :: "nat \<Rightarrow> nat \<Rightarrow> SpProviderFromOts \<Rightarrow> SpProviderFromOts res option" where
  "RegisterOts_peer kMaxBatchSize i st =
     (if i = my_id st then Some (None, st)
      else if i < my_id st then
        and_then (with_sender_list i st (\<lambda>ots. registering (RegisterHelperSend ots kMaxBatchSize
                    (sps_8 st) (unat (number_of_sps_8 st)))) (\<lambda>_ st. st)) (\<lambda>st.
        and_then (with_sender_list i st (\<lambda>ots. registering (RegisterHelperSend ots kMaxBatchSize
                    (sps_16 st) (unat (number_of_sps_16 st)))) (\<lambda>_ st. st)) (\<lambda>st.
        and_then (with_sender_list i st (\<lambda>ots. registering (RegisterHelperSend ots kMaxBatchSize
                    (sps_32 st) (unat (number_of_sps_32 st)))) (\<lambda>_ st. st)) (\<lambda>st.
        and_then (with_sender_list i st (\<lambda>ots. registering (RegisterHelperSend ots kMaxBatchSize
                    (sps_64 st) (unat (number_of_sps_64 st)))) (\<lambda>_ st. st)) (\<lambda>st.
        with_sender_list i st (\<lambda>ots. registering (RegisterHelperSend ots kMaxBatchSize
                    (sps_128 st) (unat (number_of_sps_128 st)))) (\<lambda>_ st. st)))))
      else if my_id st < i then
        and_then (with_receiver_list i st (\<lambda>ots. registering (RegisterHelperReceptor ots kMaxBatchSize
                    (sps_8 st) (unat (number_of_sps_8 st)))) (\<lambda>_ st. st)) (\<lambda>st.
        and_then (with_receiver_list i st (\<lambda>ots. registering (RegisterHelperReceptor ots kMaxBatchSize
                    (sps_16 st) (unat (number_of_sps_16 st)))) (\<lambda>_ st. st)) (\<lambda>st.
        and_then (with_receiver_list i st (\<lambda>ots. registering (RegisterHelperReceptor ots kMaxBatchSize
                    (sps_32 st) (unat (number_of_sps_32 st)))) (\<lambda>_ st. st)) (\<lambda>st.
        and_then (with_receiver_list i st (\<lambda>ots. registering (RegisterHelperReceptor ots kMaxBatchSize
                    (sps_64 st) (unat (number_of_sps_64 st)))) (\<lambda>_ st. st)) (\<lambda>st.
        with_receiver_list i st (\<lambda>ots. registering (RegisterHelperReceptor ots kMaxBatchSize
                    (sps_128 st) (unat (number_of_sps_128 st)))) (\<lambda>_ st. st)))))
      else Some (None, st))"

text \<open>
  \<open>storing r store\<close> writes what a helper has left in the batch that it took by reference
  back into the provider, also when the helper has failed.
\<close>

definition storing :: "'v res \<Rightarrow> ('v \<Rightarrow> 's) \<Rightarrow> 's res option" where
  "storing r store = (case r of (e, v) \<Rightarrow> Some (e, store v))"

definition RegisterOts ::
  "RandomSource \<Rightarrow> nat \<Rightarrow> SpProviderFromOts \<Rightarrow> SpProviderFromOts res option" where
  "RegisterOts rnd kMaxBatchSize st =
     and_then (storing (GenerateRandomPairs (random_8 rnd) (sps_8 st) (unat (number_of_sps_8 st)))
                 (\<lambda>v. st\<lparr>sps_8 := v\<rparr>)) (\<lambda>st.
     and_then (storing (GenerateRandomPairs (random_16 rnd) (sps_16 st) (unat (number_of_sps_16 st)))
                 (\<lambda>v. st\<lparr>sps_16 := v\<rparr>)) (\<lambda>st.
     and_then (storing (GenerateRandomPairs (random_32 rnd) (sps_32 st) (unat (number_of_sps_32 st)))
                 (\<lambda>v. st\<lparr>sps_32 := v\<rparr>)) (\<lambda>st.
     and_then (storing (GenerateRandomPairs (random_64 rnd) (sps_64 st) (unat (number_of_sps_64 st)))
                 (\<lambda>v. st\<lparr>sps_64 := v\<rparr>)) (\<lambda>st.
     and_then (storing (GenerateRandomPairs (random_128 rnd) (sps_128 st)
                          (unat (number_of_sps_128 st)))
                 (\<lambda>v. st\<lparr>sps_128 := v\<rparr>)) (\<lambda>st.
     for_each_peer [0..<ot_providers_size st] (RegisterOts_peer kMaxBatchSize) st)))))"

definition ParseOutputs_peer :: "nat \<Rightarrow> nat \<Rightarrow> SpProviderFromOts \<Rightarrow> SpProviderFromOts res option" where
  "ParseOutputs_peer kMaxBatchSize i st =
     (if i = my_id st then Some (None, st)
      else if i < my_id st then
        and_then (with_sender_list i st (\<lambda>ots. ParseHelperSend ots kMaxBatchSize
                    (sps_8 st) (unat (number_of_sps_8 st))) (\<lambda>v st. st\<lparr>sps_8 := v\<rparr>)) (\<lambda>st.
        and_then (with_sender_list i st (\<lambda>ots. ParseHelperSend ots kMaxBatchSize
                    (sps_16 st) (unat (number_of_sps_16 st))) (\<lambda>v st. st\<lparr>sps_16 := v\<rparr>)) (\<lambda>st.
        and_then (with_sender_list i st (\<lambda>ots. ParseHelperSend ots kMaxBatchSize
                    (sps_32 st) (unat (number_of_sps_32 st))) (\<lambda>v st. st\<lparr>sps_32 := v\<rparr>)) (\<lambda>st.
        and_then (with_sender_list i st (\<lambda>ots. ParseHelperSend ots kMaxBatchSize
                    (sps_64 st) (unat (number_of_sps_64 st))) (\<lambda>v st. st\<lparr>sps_64 := v\<rparr>)) (\<lambda>st.
        with_sender_list i st (\<lambda>ots. ParseHelperSend ots kMaxBatchSize
                    (sps_128 st) (unat (number_of_sps_128 st))) (\<lambda>v st. st\<lparr>sps_128 := v\<rparr>)))))
      else if my_id st < i then
        and_then (with_receiver_list i st (\<lambda>ots. ParseHelperReceive ots kMaxBatchSize
                    (sps_8 st) (unat (number_of_sps_8 st))) (\<lambda>v st. st\<lparr>sps_8 := v\<rparr>)) (\<lambda>st.
        and_then (with_receiver_list i st (\<lambda>ots. ParseHelperReceive ots kMaxBatchSize
                    (sps_16 st) (unat (number_of_sps_16 st))) (\<lambda>v st. st\<lparr>sps_16 := v\<rparr>)) (\<lambda>st.
        and_then (with_receiver_list i st (\<lambda>ots. ParseHelperReceive ots kMaxBatchSize
                    (sps_32 st) (unat (number_of_sps_32 st))) (\<lambda>v st. st\<lparr>sps_32 := v\<rparr>)) (\<lambda>st.
        and_then (with_receiver_list i st (\<lambda>ots. ParseHelperReceive ots kMaxBatchSize
                    (sps_64 st) (unat (number_of_sps_64 st))) (\<lambda>v st. st\<lparr>sps_64 := v\<rparr>)) (\<lambda>st.
        with_receiver_list i st (\<lambda>ots. ParseHelperReceive ots kMaxBatchSize
                    (sps_128 st) (unat (number_of_sps_128 st))) (\<lambda>v st. st\<lparr>sps_128 := v\<rparr>)))))
      else Some (None, st))"

definition ParseOutputs :: "nat \<Rightarrow> SpProviderFromOts \<Rightarrow> SpProviderFromOts res option" where
  "ParseOutputs kMaxBatchSize st =
     for_each_peer [0..<ot_providers_size st] (ParseOutputs_peer kMaxBatchSize) st"

definition PreSetup ::
  "RandomSource \<Rightarrow> nat \<Rightarrow> SpProviderFromOts \<Rightarrow> SpProviderFromOts res option" where
  "PreSetup rnd kMaxBatchSize st =
     (if \<not> NeedSps st then Some (None, st)
      else and_then (RegisterOts rnd kMaxBatchSize (record_event (RecordStart kSpPresetup) st))
             (\<lambda>st. Some (None, record_event (RecordEnd kSpPresetup) st)))"

text \<open>
  The loop over the peers in \<open>Setup\<close> and in \<open>RegisterOts\<close> is an OpenMP parallel loop;
  an iteration reads and writes the handle lists of its own peer only, so the iterations
  are made in order here.
\<close>

definition Setup_send :: "nat \<Rightarrow> SpProviderFromOts \<Rightarrow> SpProviderFromOts res" where
  "Setup_send i st =
     (if i = my_id st then (None, st)
      else case at (ots_sender st) i of
             Inl e \<Rightarrow> (Some e, st)
           | Inr to_send \<Rightarrow>
               (let st = st\<lparr>ots_sender := (ots_sender st)[i := map SendMessages to_send]\<rparr>
                in case at (ots_receiver st) i of
                     Inl e \<Rightarrow> (Some e, st)
                   | Inr to_receive \<Rightarrow>
                       (None, st\<lparr>ots_receiver :=
                                   (ots_receiver st)[i := map SendCorrections to_receive]\<rparr>)))"

definition Setup :: "nat \<Rightarrow> SpProviderFromOts \<Rightarrow> SpProviderFromOts res option" where
  "Setup kMaxBatchSize st =
     (if \<not> NeedSps st then Some (None, st)
      else case for_loop [0..<ot_providers_size st] Setup_send
                  (record_event (RecordStart kSpSetup) st) of
             (Some e, st) \<Rightarrow> Some (Some e, st)
           | (None, st) \<Rightarrow>
               and_then (ParseOutputs kMaxBatchSize st)
                 (\<lambda>st. Some (None,
                    record_event (RecordEnd kSpSetup)
                      (record_event NotifyAll
                        (record_event UnlockMutex
                          ((record_event SetFinished (record_event LockMutex st))
                             \<lparr>finished := True\<rparr>))))))"

subsection \<open>The provider's lifetime\<close>

text \<open>
  Over its lifetime a provider is called by its owner and its handles are written by the
  OT layer. \<open>lifetime\<close> lists the states it goes through; a caller that catches an
  exception goes on with the provider as the exception left it, and the list ends where a
  call does not return. \<open>transitions\<close> counts the changes from false to true.
\<close>

datatype sp_call = CallPreSetup RandomSource | CallSetup
  | OtLayerWrites "OtVectorSender list list" "OtVectorReceiver list list"

fun sp_perform :: "nat \<Rightarrow> sp_call \<Rightarrow> SpProviderFromOts \<Rightarrow> SpProviderFromOts res option" where
  "sp_perform kMaxBatchSize (CallPreSetup rnd) st = PreSetup rnd kMaxBatchSize st"
| "sp_perform kMaxBatchSize CallSetup st = Setup kMaxBatchSize st"
| "sp_perform kMaxBatchSize (OtLayerWrites to_send to_receive) st =
     Some (None, st\<lparr>ots_sender := to_send, ots_receiver := to_receive\<rparr>)"

fun lifetime :: "nat \<Rightarrow> sp_call list \<Rightarrow> SpProviderFromOts \<Rightarrow> SpProviderFromOts list" where
  "lifetime kMaxBatchSize [] st = [st]"
| "lifetime kMaxBatchSize (x # xs) st =
     st # (case sp_perform kMaxBatchSize x st of
             None \<Rightarrow> []
           | Some (e, st') \<Rightarrow> lifetime kMaxBatchSize xs st')"

fun transitions :: "bool list \<Rightarrow> nat" where
  "transitions (x # y # rest) = (if \<not> x \<and> y then 1 else 0) + transitions (y # rest)"
| "transitions _ = 0"

subsection \<open>The additive-correlated OT layer and a run of all parties\<close>

text \<open>
  Modelled from the spec: the OT protocol is not among the sources. In an additive
  correlated OT on values of \<open>vector_length\<close> bits the sender's output is a random pad and
  the receiver's output is the pad when its choice bit is clear and the pad plus the
  sender's input, modulo \<open>2 ^ vector_length\<close>, when it is set. The pads are a parameter.
  The \<open>k\<close>-th sender handle that party \<open>s\<close> registered against party \<open>r\<close> is matched with the
  \<open>k\<close>-th receiver handle that \<open>r\<close> registered against \<open>s\<close>.
\<close>

definition ac_ot_sender :: "(nat \<Rightarrow> nat) \<Rightarrow> OtVectorSender \<Rightarrow> OtVectorSender" where
  "ac_ot_sender pad hs =
     hs\<lparr>snd_outputs :=
          map (\<lambda>j. le_encode (snd_bitlen hs div 8) (pad j mod 2 ^ snd_bitlen hs))
            [0..<snd_num_ots hs]\<rparr>"

definition ac_ot_receiver ::
  "(nat \<Rightarrow> nat) \<Rightarrow> OtVectorSender \<Rightarrow> OtVectorReceiver \<Rightarrow> OtVectorReceiver" where
  "ac_ot_receiver pad hs hr =
     hr\<lparr>rcv_outputs :=
          map (\<lambda>j. le_encode (rcv_bitlen hr div 8)
                    ((pad j + (if rcv_choices hr ! j then le_decode (snd_inputs hs ! j) else 0))
                       mod 2 ^ rcv_bitlen hr))
            [0..<rcv_num_ots hr]\<rparr>"

fun ac_ot_senders ::
  "(nat \<Rightarrow> nat \<Rightarrow> nat) \<Rightarrow> nat \<Rightarrow> OtVectorSender list \<Rightarrow> OtVectorSender list" where
  "ac_ot_senders masks k [] = []"
| "ac_ot_senders masks k (hs # rest) = ac_ot_sender (masks k) hs # ac_ot_senders masks (Suc k) rest"

fun ac_ot_receivers ::
  "(nat \<Rightarrow> nat \<Rightarrow> nat) \<Rightarrow> nat \<Rightarrow> OtVectorSender list \<Rightarrow> OtVectorReceiver list
     \<Rightarrow> OtVectorReceiver list" where
  "ac_ot_receivers masks k (hs # rest) (hr # rest') =
     ac_ot_receiver (masks k) hs hr # ac_ot_receivers masks (Suc k) rest rest'"
| "ac_ot_receivers masks k _ rest' = rest'"

definition ot_layer ::
  "(nat \<Rightarrow> nat \<Rightarrow> nat \<Rightarrow> nat \<Rightarrow> nat) \<Rightarrow> SpProviderFromOts list \<Rightarrow> SpProviderFromOts list" where
  "ot_layer masks sts =
     map (\<lambda>p. (sts ! p)
            \<lparr>ots_sender :=
               map (\<lambda>r. ac_ot_senders (masks p r) 0 (ots_sender (sts ! p) ! r))
                 [0..<length (ots_sender (sts ! p))],
             ots_receiver :=
               map (\<lambda>s. if s < length sts \<and> p < length (ots_sender (sts ! s))
                        then ac_ot_receivers (masks s p) 0 (ots_sender (sts ! s) ! p)
                               (ots_receiver (sts ! p) ! s)
                        else ots_receiver (sts ! p) ! s)
                 [0..<length (ots_receiver (sts ! p))]\<rparr>)
       [0..<length sts]"

text \<open>
  A run of all parties: every party is constructed and asked for the same counts, runs
  \<open>PreSetup\<close>, the OT layer delivers, and every party runs \<open>Setup\<close>. The run yields the
  final states when every call has returned without an error.
\<close>

fun all_succeed :: "'s res option list \<Rightarrow> 's list option" where
  "all_succeed [] = Some []"
| "all_succeed (Some (None, s) # rest) = map_option ((#) s) (all_succeed rest)"
| "all_succeed (_ # rest) = None"

definition protocol_run ::
  "(nat \<Rightarrow> nat \<Rightarrow> nat \<Rightarrow> nat \<Rightarrow> nat) \<Rightarrow> (nat \<Rightarrow> RandomSource) \<Rightarrow> nat \<Rightarrow> nat \<Rightarrow> sp_requests
     \<Rightarrow> SpProviderFromOts list option" where
  "protocol_run masks rnd kMaxBatchSize parties n =
     (case all_succeed (map (\<lambda>p. PreSetup (rnd p) kMaxBatchSize
                                  (requested n (SpProviderFromOts_init parties p)))
                          [0..<parties]) of
        None \<Rightarrow> None
      | Some registered \<Rightarrow>
          all_succeed (map (Setup kMaxBatchSize) (ot_layer masks registered)))"

section \<open>The active queue under concurrency\<close>

text \<open>
  Threads that call \<open>AddToActiveQueue\<close> and \<open>GetNextGateFromOnlineQueue\<close> at the same time
  are interleaved statement by statement. A thread's program counter names the statement
  it executes next; a thread that waits for the mutex cannot step. \<open>front()\<close> and \<open>pop()\<close>
  of an empty queue are undefined behaviour.
\<close>

datatype thread =
    Producer_lock size_t | Producer_push size_t | Producer_log size_t | Producer_done
  | Consumer_size | Consumer_front | Consumer_assert size_t | Consumer_lock size_t
  | Consumer_pop size_t | Consumer_return size_t | Consumer_returned int
  | Crashed error

record queue_system =
  q_active_gates :: "size_t list"
  q_mutex :: "nat option"
  q_trace_log :: "size_t list"
  q_threads :: "thread list"

definition set_thread :: "nat \<Rightarrow> thread \<Rightarrow> queue_system \<Rightarrow> queue_system" where
  "set_thread t pc s = s\<lparr>q_threads := (q_threads s)[t := pc]\<rparr>"

fun thread_step :: "nat \<Rightarrow> thread \<Rightarrow> queue_system \<Rightarrow> queue_system option" where
  "thread_step t (Producer_lock g) s =
     (if q_mutex s = None then Some (set_thread t (Producer_push g) (s\<lparr>q_mutex := Some t\<rparr>))
      else None)"
| "thread_step t (Producer_push g) s =
     Some (set_thread t (Producer_log g) (s\<lparr>q_active_gates := q_active_gates s @ [g]\<rparr>))"
| "thread_step t (Producer_log g) s =
     Some (set_thread t Producer_done (s\<lparr>q_trace_log := q_trace_log s @ [g], q_mutex := None\<rparr>))"
| "thread_step t Consumer_size s =
     (if length (q_active_gates s) = 0 then Some (set_thread t (Consumer_returned (- 1)) s)
      else Some (set_thread t Consumer_front s))"
| "thread_step t Consumer_front s =
     (case q_active_gates s of
        [] \<Rightarrow> Some (set_thread t (Crashed undefined_behaviour) s)
      | gate_id # rest \<Rightarrow> Some (set_thread t (Consumer_assert gate_id) s))"
| "thread_step t (Consumer_assert g) s =
     (if g < - 1 then Some (set_thread t (Consumer_lock g) s)
      else Some (set_thread t (Crashed assertion_failed) s))"
| "thread_step t (Consumer_lock g) s =
     (if q_mutex s = None then Some (set_thread t (Consumer_pop g) (s\<lparr>q_mutex := Some t\<rparr>))
      else None)"
| "thread_step t (Consumer_pop g) s =
     (case q_active_gates s of
        [] \<Rightarrow> Some (set_thread t (Crashed undefined_behaviour) s)
      | front # rest \<Rightarrow> Some (set_thread t (Consumer_return g) (s\<lparr>q_active_gates := rest\<rparr>)))"
| "thread_step t (Consumer_return g) s =
     Some (set_thread t (Consumer_returned (sint g)) (s\<lparr>q_mutex := None\<rparr>))"
| "thread_step t Producer_done s = None"
| "thread_step t (Consumer_returned r) s = None"
| "thread_step t (Crashed e) s = None"

text \<open>A schedule names the thread that makes each step.\<close>

fun run_schedule :: "nat list \<Rightarrow> queue_system \<Rightarrow> queue_system option" where
  "run_schedule [] s = Some s"
| "run_schedule (t # rest) s =
     (if t < length (q_threads s)
      then (case thread_step t (q_threads s ! t) s of
              None \<Rightarrow> None
            | Some s' \<Rightarrow> run_schedule rest s')
      else None)"

definition queue_system_init :: "thread list \<Rightarrow> queue_system" where
  "queue_system_init ts =
     \<lparr> q_active_gates = [], q_mutex = None, q_trace_log = [], q_threads = ts \<rparr>"

section \<open>Notions used in the statements\<close>

text \<open>The identifier that a call has returned, as a number.\<close>

fun id_of :: "(error + ('g, 'w) retval) \<Rightarrow> nat option" where
  "id_of (Inr (Id n)) = Some (unat n)"
| "id_of _ = None"

text \<open>
  A registry of party 1 in a run of two parties: the handler of party 0 has sent nothing
  yet and the slot of the party itself is empty.
\<close>

definition two_party_core :: "(unit, unit, string) Core" where
  "two_party_core = snd (RegisterCommunicationHandlers [Some [], None] (Core_init 1))"

text \<open>
  What the helpers never write: the party's id, the request counts, the completion flag
  and the number of parties.
\<close>

definition frame ::
  "SpProviderFromOts \<Rightarrow> nat \<times> (size_t \<times> size_t \<times> size_t \<times> size_t \<times> size_t) \<times> bool \<times> nat" where
  "frame st =
     (my_id st,
      (number_of_sps_8 st, number_of_sps_16 st, number_of_sps_32 st, number_of_sps_64 st,
       number_of_sps_128 st),
      finished st, ot_providers_size st)"

definition keeps ::
  "nat \<times> (size_t \<times> size_t \<times> size_t \<times> size_t \<times> size_t) \<times> bool \<times> nat
     \<Rightarrow> SpProviderFromOts res option \<Rightarrow> bool" where
  "keeps F r \<longleftrightarrow> (case r of None \<Rightarrow> True | Some (e, st) \<Rightarrow> frame st = F)"

text \<open>A random source that always draws zero, and one for each party that draws small numbers.\<close>

definition zero_random :: RandomSource where
  "zero_random = \<lparr> random_8 = (\<lambda>i. 0), random_16 = (\<lambda>i. 0), random_32 = (\<lambda>i. 0),
     random_64 = (\<lambda>i. 0), random_128 = (\<lambda>i. 0) \<rparr>"

definition small_random :: "nat \<Rightarrow> RandomSource" where
  "small_random p =
     \<lparr> random_8 = (\<lambda>i. word_of_nat (3 + 2 * p + i)), random_16 = (\<lambda>i. word_of_nat (3 + 2 * p + i)),
       random_32 = (\<lambda>i. word_of_nat (3 + 2 * p + i)), random_64 = (\<lambda>i. word_of_nat (3 + 2 * p + i)),
       random_128 = (\<lambda>i. word_of_nat (3 + 2 * p + i)) \<rparr>"

text \<open>
  An OT layer whose pads are all the same number, and request counts whose sum is
  \<open>2 ^ 64\<close>.
\<close>

definition constant_pads :: "nat \<Rightarrow> nat \<Rightarrow> nat \<Rightarrow> nat \<Rightarrow> nat \<Rightarrow> nat" where
  "constant_pads m s r h i = m"

definition wrapping_requests :: sp_requests where
  "wrapping_requests =
     \<lparr> req_8 = 18446744073709551615, req_16 = 1, req_32 = 0, req_64 = 0, req_128 = 0 \<rparr>"

text \<open>
  The batches that the four batch loops go through from \<open>sp_id\<close> on: the first index and
  the size of each.
\<close>

function batches :: "nat \<Rightarrow> nat \<Rightarrow> nat \<Rightarrow> (nat \<times> nat) list" where
  "batches max_batch_size number_of_sps sp_id =
     (if sp_id < number_of_sps \<and> 0 < max_batch_size
      then (sp_id, min max_batch_size (number_of_sps - sp_id))
             # batches max_batch_size number_of_sps
                 (sp_id + min max_batch_size (number_of_sps - sp_id))
      else [])"
  by pat_completeness auto
termination
  by (relation "measure (\<lambda>(max_batch_size, number_of_sps, sp_id). number_of_sps - sp_id)") auto

text \<open>
  The handles that \<open>RegisterHelperSend\<close> and \<open>RegisterHelperReceptor\<close> register for a batch:
  the message at position \<open>k * W + bit\<close> is \<open>a[sp_id + k] << bit\<close>, the choice bit at that
  position is bit \<open>bit\<close> of \<open>a[sp_id + k]\<close>. The flag \<open>sent\<close> tells whether \<open>Setup\<close> has called
  \<open>SendMessages\<close> or \<open>SendCorrections\<close> on the handle.
\<close>

definition sender_handle :: "bool \<Rightarrow> 'a::len word list \<Rightarrow> nat \<times> nat \<Rightarrow> OtVectorSender" where
  "sender_handle sent a = (\<lambda>(sp_id, batch_size).
     \<lparr> snd_bitlen = LENGTH('a), snd_num_ots = wrap64 (batch_size * LENGTH('a)),
       snd_inputs = concat (map (\<lambda>k. map (\<lambda>bit_i. bytes_of (push_bit bit_i (a ! (sp_id + k))))
                                        [0..<LENGTH('a)]) [0..<batch_size]),
       snd_outputs = [], messages_sent = sent \<rparr>)"

definition receiver_handle :: "bool \<Rightarrow> 'a::len word list \<Rightarrow> nat \<times> nat \<Rightarrow> OtVectorReceiver" where
  "receiver_handle sent a = (\<lambda>(sp_id, batch_size).
     \<lparr> rcv_bitlen = LENGTH('a), rcv_num_ots = wrap64 (batch_size * LENGTH('a)),
       rcv_choices = concat (map (\<lambda>k. map (\<lambda>bit_i. bit (a ! (sp_id + k)) bit_i)
                                        [0..<LENGTH('a)]) [0..<batch_size]),
       rcv_outputs = [], corrections_sent = sent \<rparr>)"

text \<open>
  The value that a parse helper reads at a position of an output vector, and the sum of
  the values it reads for the pair \<open>k\<close> of a batch.
\<close>

definition value_at :: "BitVector list \<Rightarrow> nat \<Rightarrow> 'a::len word" where
  "value_at outputs pos = word_of_nat (le_decode (take (LENGTH('a) div 8) (outputs ! pos)))"

definition values_of_pair :: "BitVector list \<Rightarrow> nat \<Rightarrow> 'a::len word" where
  "values_of_pair outputs k =
     (\<Sum>bit_i<LENGTH('a). value_at outputs (k * LENGTH('a) + bit_i))"

text \<open>
  The output vectors \<open>outs\<close> of the handles at the front of a list serve the batches \<open>bs\<close>
  of a width of \<open>W\<close> bits: there is a handle for every batch, and its output vector holds
  at least \<open>batch_size * W\<close> outputs, each of at least \<open>W\<close> bits.
\<close>

fun outputs_filled :: "nat \<Rightarrow> (nat \<times> nat) list \<Rightarrow> BitVector list list \<Rightarrow> bool" where
  "outputs_filled W [] outs = True"
| "outputs_filled W ((sp_id, batch_size) # bs) [] = False"
| "outputs_filled W ((sp_id, batch_size) # bs) (out # outs) =
     (batch_size * W \<le> length out
      \<and> list_all (\<lambda>bv. W div 8 \<le> length bv) (take (batch_size * W) out)
      \<and> outputs_filled W bs outs)"

text \<open>
  The sum of the pads of the OTs for the pair at index \<open>idx\<close>, when the batches \<open>bs\<close> are
  the handles number \<open>k\<close>, \<open>k + 1\<close>, ... of a peer.
\<close>

fun pad_of :: "(nat \<Rightarrow> nat \<Rightarrow> nat) \<Rightarrow> nat \<Rightarrow> (nat \<times> nat) list \<Rightarrow> nat \<Rightarrow> 'a::len word" where
  "pad_of masks k [] idx = 0"
| "pad_of masks k ((sp_id, batch_size) # rest) idx =
     (if sp_id \<le> idx \<and> idx < sp_id + batch_size
      then (\<Sum>bit_i<LENGTH('a). word_of_nat (masks k ((idx - sp_id) * LENGTH('a) + bit_i)))
      else pad_of masks (Suc k) rest idx)"

text \<open>
  All the handles that a party registers against one peer, narrowest width first, and
  the number of handles for the widths below a given one.
\<close>

definition sender_handles :: "bool \<Rightarrow> nat \<Rightarrow> SpProviderFromOts \<Rightarrow> OtVectorSender list" where
  "sender_handles sent B st =
     map (sender_handle sent (sp_a (sps_8 st))) (batches B (unat (number_of_sps_8 st)) 0)
     @ map (sender_handle sent (sp_a (sps_16 st))) (batches B (unat (number_of_sps_16 st)) 0)
     @ map (sender_handle sent (sp_a (sps_32 st))) (batches B (unat (number_of_sps_32 st)) 0)
     @ map (sender_handle sent (sp_a (sps_64 st))) (batches B (unat (number_of_sps_64 st)) 0)
     @ map (sender_handle sent (sp_a (sps_128 st))) (batches B (unat (number_of_sps_128 st)) 0)"

definition receiver_handles :: "bool \<Rightarrow> nat \<Rightarrow> SpProviderFromOts \<Rightarrow> OtVectorReceiver list" where
  "receiver_handles sent B st =
     map (receiver_handle sent (sp_a (sps_8 st))) (batches B (unat (number_of_sps_8 st)) 0)
     @ map (receiver_handle sent (sp_a (sps_16 st))) (batches B (unat (number_of_sps_16 st)) 0)
     @ map (receiver_handle sent (sp_a (sps_32 st))) (batches B (unat (number_of_sps_32 st)) 0)
     @ map (receiver_handle sent (sp_a (sps_64 st))) (batches B (unat (number_of_sps_64 st)) 0)
     @ map (receiver_handle sent (sp_a (sps_128 st))) (batches B (unat (number_of_sps_128 st)) 0)"

definition handles_below_16 :: "nat \<Rightarrow> sp_requests \<Rightarrow> nat" where
  "handles_below_16 B n = length (batches B (unat (req_8 n)) 0)"

definition handles_below_32 :: "nat \<Rightarrow> sp_requests \<Rightarrow> nat" where
  "handles_below_32 B n = handles_below_16 B n + length (batches B (unat (req_16 n)) 0)"

definition handles_below_64 :: "nat \<Rightarrow> sp_requests \<Rightarrow> nat" where
  "handles_below_64 B n = handles_below_32 B n + length (batches B (unat (req_32 n)) 0)"

definition handles_below_128 :: "nat \<Rightarrow> sp_requests \<Rightarrow> nat" where
  "handles_below_128 B n = handles_below_64 B n + length (batches B (unat (req_64 n)) 0)"

text \<open>
  \<open>add_delta d\<close> adds \<open>d idx\<close> to the entry \<open>idx\<close> of \<open>c\<close>. \<open>delta\<close> is what parsing the
  outputs of the OTs with peer \<open>i\<close> adds to the \<open>c\<close> of party \<open>p\<close>, for the handles from
  number \<open>k\<close> on, when \<open>A q\<close> is the vector \<open>a\<close> of party \<open>q\<close>.
\<close>

definition add_delta :: "(nat \<Rightarrow> 'a::len word) \<Rightarrow> 'a word SpVector \<Rightarrow> 'a word SpVector" where
  "add_delta d sps = sps\<lparr>sp_c := map (\<lambda>idx. sp_c sps ! idx + d idx) [0..<length (sp_c sps)]\<rparr>"

definition delta ::
  "(nat \<Rightarrow> nat \<Rightarrow> nat \<Rightarrow> nat \<Rightarrow> nat) \<Rightarrow> nat \<Rightarrow> nat \<Rightarrow> nat \<Rightarrow> (nat \<Rightarrow> 'a::len word list)
     \<Rightarrow> nat \<Rightarrow> nat \<Rightarrow> nat \<Rightarrow> 'a word" where
  "delta masks k B n A p i idx =
     (if i < p then - (2 * pad_of (masks p i) k (batches B n 0) idx)
      else if p < i
      then 2 * pad_of (masks i p) k (batches B n 0) idx
           + 2 * (if idx < n then A i ! idx * A p ! idx else 0)
      else 0)"

text \<open>A party after its construction, the requests and \<open>PreSetup\<close>.\<close>

definition drawn :: "(nat \<Rightarrow> 'a::len word) \<Rightarrow> size_t \<Rightarrow> 'a word SpVector" where
  "drawn rnd n =
     \<lparr> sp_a = RandomVector rnd (unat n),
       sp_c = map (\<lambda>a_i. a_i * a_i) (RandomVector rnd (unat n)) \<rparr>"

definition registered_party ::
  "RandomSource \<Rightarrow> nat \<Rightarrow> nat \<Rightarrow> sp_requests \<Rightarrow> nat \<Rightarrow> SpProviderFromOts" where
  "registered_party rnd B parties n p =
     (let st = (requested n (SpProviderFromOts_init parties p))
                 \<lparr>sps_8 := drawn (random_8 rnd) (req_8 n),
                  sps_16 := drawn (random_16 rnd) (req_16 n),
                  sps_32 := drawn (random_32 rnd) (req_32 n),
                  sps_64 := drawn (random_64 rnd) (req_64 n),
                  sps_128 := drawn (random_128 rnd) (req_128 n)\<rparr>
      in st\<lparr>ots_sender := map (\<lambda>i. if i < p then sender_handles False B st else []) [0..<parties],
            ots_receiver := map (\<lambda>i. if p < i then receiver_handles False B st else []) [0..<parties],
            events := [RecordStart kSpPresetup, RecordEnd kSpPresetup]\<rparr>)"

text \<open>The vectors \<open>a\<close> are as long as the counts say.\<close>

definition drawn_ok :: "SpProviderFromOts \<Rightarrow> bool" where
  "drawn_ok st \<longleftrightarrow>
     unat (number_of_sps_8 st) \<le> length (sp_a (sps_8 st))
     \<and> unat (number_of_sps_16 st) \<le> length (sp_a (sps_16 st))
     \<and> unat (number_of_sps_32 st) \<le> length (sp_a (sps_32 st))
     \<and> unat (number_of_sps_64 st) \<le> length (sp_a (sps_64 st))
     \<and> unat (number_of_sps_128 st) \<le> length (sp_a (sps_128 st))"

text \<open>
  A party after the OT layer has delivered, after the first loop of \<open>Setup\<close>, and after
  \<open>ParseOutputs\<close> has gone through the peers below \<open>t\<close>.
\<close>

definition delivered_party ::
  "(nat \<Rightarrow> nat \<Rightarrow> nat \<Rightarrow> nat \<Rightarrow> nat) \<Rightarrow> (nat \<Rightarrow> RandomSource) \<Rightarrow> nat \<Rightarrow> nat \<Rightarrow> sp_requests
     \<Rightarrow> nat \<Rightarrow> SpProviderFromOts" where
  "delivered_party masks rnd B P n p =
     (registered_party (rnd p) B P n p)
       \<lparr>ots_sender :=
          map (\<lambda>r. if r < p
                   then ac_ot_senders (masks p r) 0
                          (sender_handles False B (registered_party (rnd p) B P n p))
                   else []) [0..<P],
        ots_receiver :=
          map (\<lambda>s. if p < s
                   then ac_ot_receivers (masks s p) 0
                          (sender_handles False B (registered_party (rnd s) B P n s))
                          (receiver_handles False B (registered_party (rnd p) B P n p))
                   else []) [0..<P]\<rparr>"

definition sent_party ::
  "(nat \<Rightarrow> nat \<Rightarrow> nat \<Rightarrow> nat \<Rightarrow> nat) \<Rightarrow> (nat \<Rightarrow> RandomSource) \<Rightarrow> nat \<Rightarrow> nat \<Rightarrow> sp_requests
     \<Rightarrow> nat \<Rightarrow> SpProviderFromOts" where
  "sent_party masks rnd B P n p =
     (registered_party (rnd p) B P n p)
       \<lparr>ots_sender :=
          map (\<lambda>r. if r < p
                   then ac_ot_senders (masks p r) 0
                          (sender_handles True B (registered_party (rnd p) B P n p))
                   else []) [0..<P],
        ots_receiver :=
          map (\<lambda>s. if p < s
                   then ac_ot_receivers (masks s p) 0
                          (sender_handles False B (registered_party (rnd s) B P n s))
                          (receiver_handles True B (registered_party (rnd p) B P n p))
                   else []) [0..<P],
        events := [RecordStart kSpPresetup, RecordEnd kSpPresetup, RecordStart kSpSetup]\<rparr>"

definition parsed_party ::
  "(nat \<Rightarrow> nat \<Rightarrow> nat \<Rightarrow> nat \<Rightarrow> nat) \<Rightarrow> (nat \<Rightarrow> RandomSource) \<Rightarrow> nat \<Rightarrow> nat \<Rightarrow> sp_requests
     \<Rightarrow> nat \<Rightarrow> nat \<Rightarrow> SpProviderFromOts" where
  "parsed_party masks rnd B P n p t =
     (sent_party masks rnd B P n p)
       \<lparr>ots_sender :=
          map (\<lambda>r. if r < t then [] else ots_sender (sent_party masks rnd B P n p) ! r)
            [0..<P],
        ots_receiver :=
          map (\<lambda>s. if s < t then [] else ots_receiver (sent_party masks rnd B P n p) ! s)
            [0..<P],
        sps_8 := add_delta
          (\<lambda>idx. \<Sum>i<t. delta masks 0 B (unat (req_8 n))
                           (\<lambda>q. RandomVector (random_8 (rnd q)) (unat (req_8 n))) p i idx)
          (drawn (random_8 (rnd p)) (req_8 n)),
        sps_16 := add_delta
          (\<lambda>idx. \<Sum>i<t. delta masks (handles_below_16 B n) B (unat (req_16 n))
                           (\<lambda>q. RandomVector (random_16 (rnd q)) (unat (req_16 n))) p i idx)
          (drawn (random_16 (rnd p)) (req_16 n)),
        sps_32 := add_delta
          (\<lambda>idx. \<Sum>i<t. delta masks (handles_below_32 B n) B (unat (req_32 n))
                           (\<lambda>q. RandomVector (random_32 (rnd q)) (unat (req_32 n))) p i idx)
          (drawn (random_32 (rnd p)) (req_32 n)),
        sps_64 := add_delta
          (\<lambda>idx. \<Sum>i<t. delta masks (handles_below_64 B n) B (unat (req_64 n))
                           (\<lambda>q. RandomVector (random_64 (rnd q)) (unat (req_64 n))) p i idx)
          (drawn (random_64 (rnd p)) (req_64 n)),
        sps_128 := add_delta
          (\<lambda>idx. \<Sum>i<t. delta masks (handles_below_128 B n) B (unat (req_128 n))
                           (\<lambda>q. RandomVector (random_128 (rnd q)) (unat (req_128 n))) p i idx)
          (drawn (random_128 (rnd p)) (req_128 n))\<rparr>"

text \<open>
  A lifetime of party 1 of two parties that is asked for one pair of 8 bits: \<open>PreSetup\<close>,
  then the OT layer writes the outputs of additive-correlated OTs whose pads are all 7
  into the handles, then \<open>Setup\<close>.
\<close>

definition one_pair_of_8 :: sp_requests where
  "one_pair_of_8 = \<lparr> req_8 = 1, req_16 = 0, req_32 = 0, req_64 = 0, req_128 = 0 \<rparr>"

definition delivering_calls :: "sp_call list" where
  "delivering_calls =
     [CallPreSetup (small_random 1),
      OtLayerWrites
        (ots_sender (delivered_party (constant_pads 7) small_random 1 2 one_pair_of_8 1))
        (ots_receiver (delivered_party (constant_pads 7) small_random 1 2 one_pair_of_8 1)),
      CallSetup]"

section \<open>The circuit registry: properties\<close>

lemma gate_ids_from:
  "map id_of (fst (perform_all (replicate k CallNextGateId) c)) =
     map (\<lambda>i. Some (unat (global_gate_id c + of_nat i))) [0..<k]"
proof (induction k arbitrary: c)
  case 0
  then show ?case by simp
next
  case (Suc k)
  have "[0..<Suc k] = 0 # map Suc [0..<k]"
    by (simp add: upt_conv_Cons map_Suc_upt del: upt_Suc)
  then show ?case
    using Suc[of "snd (NextGateId c)"]
    by (simp add: NextGateId_def case_prod_beta del: upt_Suc add: comp_def add.assoc)
qed

lemma sharing_ids_from:
  "\<forall>n\<in>set ns. n \<noteq> 0 \<Longrightarrow>
   map id_of (fst (perform_all (map CallNextArithmeticSharingId ns) c)) =
     map (\<lambda>i. Some (unat (global_arithmetic_sharing_id c + sum_list (take i ns)))) [0..<length ns]"
proof (induction ns arbitrary: c)
  case Nil
  then show ?case by simp
next
  case (Cons n ns)
  have "[0..<Suc (length ns)] = 0 # map Suc [0..<length ns]"
    by (simp add: upt_conv_Cons map_Suc_upt del: upt_Suc)
  then show ?case
    using Cons.IH[of "snd (NextArithmeticSharingId n c)"] Cons.prems
    by (simp add: NextArithmeticSharingId_def case_prod_beta del: upt_Suc add: comp_def add.assoc)
qed

lemma unat_sum_list_no_wrap:
  "sum_list (map unat xs) < 2 ^ 64 \<Longrightarrow> unat (sum_list xs :: 64 word) = sum_list (map unat xs)"
proof (induction xs)
  case Nil then show ?case by simp
next
  case (Cons x xs)
  then show ?case by (simp add: unat_word_ariths)
qed

lemma sum_take_le_butlast:
  "i < length ns \<Longrightarrow> sum_list (map unat (take i ns)) \<le> sum_list (map unat (butlast (ns :: 64 word list)))"
proof -
  assume "i < length ns"
  then have "take i ns = take i (butlast ns)" by (simp add: take_butlast)
  moreover have "sum_list (map unat (take i (butlast ns))) \<le> sum_list (map unat (butlast ns))"
    by (metis append_take_drop_id le_add1 map_append sum_list_append)
  ultimately show ?thesis by simp
qed

text \<open>
  Claim C7, as amended. Identifiers are 64-bit counters that wrap around. From the
  initial state, \<open>k\<close> calls of \<open>NextGateId\<close> return \<open>0, 1, ..., k - 1\<close> as long as
  \<open>k \<le> 2 ^ 64\<close>. Calls \<open>NextArithmeticSharingId n\<^sub>1\<close>, \<open>NextArithmeticSharingId n\<^sub>2\<close>, ...
  with every \<open>n\<^sub>i \<ge> 1\<close> return start values that are strictly increasing with consecutive
  gaps exactly \<open>n\<^sub>i\<close>, as long as the ranges before the last one fit below \<open>2 ^ 64\<close>.
\<close>

theorem id_allocation_without_wrap:
  fixes me :: size_t and ns :: "size_t list"
  assumes "k \<le> 2 ^ 64"
    and "\<forall>n\<in>set ns. n \<noteq> 0"
    and "sum_list (map unat (butlast ns)) < 2 ^ 64"
  shows "map id_of (fst (perform_all (replicate k CallNextGateId)
                 (Core_init me :: ('g, 'w, 'm) Core))) = map Some [0..<k]
       \<and> (\<exists>starts.
            map id_of (fst (perform_all (map CallNextArithmeticSharingId ns)
                 (Core_init me :: ('g, 'w, 'm) Core))) = map Some starts
            \<and> length starts = length ns
            \<and> sorted_wrt (<) starts
            \<and> map2 (\<lambda>a b. b - a) starts (tl starts) = map unat (butlast ns))"
proof
  have "unat (word_of_nat i :: size_t) = i" if "i < k" for i
    using that assms(1) by (simp add: unat_of_nat take_bit_nat_eq_self)
  then show "map id_of (fst (perform_all (replicate k CallNextGateId)
                 (Core_init me :: ('g, 'w, 'm) Core))) = map Some [0..<k]"
    by (simp add: gate_ids_from Core_init_def)
next
  let ?st = "\<lambda>i. sum_list (map unat (take i ns))"
  let ?starts = "map ?st [0..<length ns]"
  have small: "?st i < 2 ^ 64" if "i < length ns" for i
    using sum_take_le_butlast[OF that] assms(3) by linarith
  have step: "?st (Suc i) = ?st i + unat (ns ! i)" if "i < length ns" for i
    using that by (simp add: take_Suc_conv_app_nth)
  have pos: "0 < unat (ns ! i)" if "i < length ns" for i
    using that assms(2) by (simp add: unat_gt_0)
  have a: "map id_of (fst (perform_all (map CallNextArithmeticSharingId ns)
                 (Core_init me :: ('g, 'w, 'm) Core))) = map Some ?starts"
    using small by (simp add: sharing_ids_from[OF assms(2)] Core_init_def unat_sum_list_no_wrap)
  have b: "sorted_wrt (<) ?starts"
  proof -
    have "?st i < ?st (Suc i)" if "Suc i < length ns" for i
      using step[of i] pos[of i] that by simp
    then show ?thesis
      by (simp add: sorted_wrt_iff_nth_Suc_transp)
  qed
  have c: "map2 (\<lambda>a b. b - a) ?starts (tl ?starts) = map unat (butlast ns)"
  proof (rule nth_equalityI)
    show "length (map2 (\<lambda>a b. b - a) ?starts (tl ?starts)) = length (map unat (butlast ns))"
      by simp
  next
    fix i assume "i < length (map2 (\<lambda>a b. b - a) ?starts (tl ?starts))"
    then have i: "Suc i < length ns" by simp
    then show "map2 (\<lambda>a b. b - a) ?starts (tl ?starts) ! i = map unat (butlast ns) ! i"
      using step[of i] by (simp add: nth_tl nth_butlast del: upt_Suc)
  qed
  show "\<exists>starts.
            map id_of (fst (perform_all (map CallNextArithmeticSharingId ns)
                 (Core_init me :: ('g, 'w, 'm) Core))) = map Some starts
            \<and> length starts = length ns
            \<and> sorted_wrt (<) starts
            \<and> map2 (\<lambda>a b. b - a) starts (tl starts) = map unat (butlast ns)"
    using a b c by (intro exI[of _ ?starts]) simp
qed

theorem id_allocation_without_wrap_witness:
  "map id_of (fst (perform_all (replicate 3 CallNextGateId)
                 (Core_init 0 :: (unit, unit, unit) Core))) = map Some [0..<3]
   \<and> (\<exists>starts.
        map id_of (fst (perform_all (map CallNextArithmeticSharingId [4, 1, 3])
                 (Core_init 0 :: (unit, unit, unit) Core))) = map Some starts
        \<and> length starts = length [4 :: size_t, 1, 3]
        \<and> sorted_wrt (<) starts
        \<and> map2 (\<lambda>a b. b - a) starts (tl starts) = map unat (butlast [4 :: size_t, 1, 3]))"
  by (rule id_allocation_without_wrap) simp_all

text \<open>
  Claim C7 as stated fails where the counter wraps: after
  \<open>NextArithmeticSharingId (2 ^ 64 - 1)\<close> and \<open>NextArithmeticSharingId 2\<close> the third call
  returns 1, below the second start.
\<close>

theorem sharing_ids_wrap_counterexample:
  "map id_of (fst (perform_all (map CallNextArithmeticSharingId [18446744073709551615, 2, 1])
                 (Core_init 0 :: (unit, unit, unit) Core)))
     = [Some 0, Some 18446744073709551615, Some 1]
   \<and> \<not> sorted_wrt (<) [0 :: nat, 18446744073709551615, 1]"
  by (simp add: NextArithmeticSharingId_def Core_init_def)

text \<open>
  Claim C5, as amended. \<open>Send\<close> to the party itself throws the runtime error "Want to
  send message to myself" (the spec's InvalidArgument) and leaves the registry, so every
  handler, as it was. \<open>Send\<close> to another party \<open>p\<close> that has a registered handler hands the
  message to that handler exactly once and changes nothing else; when \<open>p\<close> is beyond the
  handler table, \<open>at\<close> throws and nothing is sent.
\<close>

theorem Send_self_or_registered_peer:
  fixes c :: "('g, 'w, 'm) Core"
  shows "Send (config_my_id c) message c = (Inl (runtime_error ''Want to send message to myself''), c)
       \<and> (party_id \<noteq> config_my_id c \<and> unat party_id < length (communication_handlers c)
            \<and> communication_handlers c ! unat party_id = Some delivered \<longrightarrow>
          Send party_id message c =
            (Inr Unit, c\<lparr>communication_handlers :=
                          (communication_handlers c)[unat party_id := Some (delivered @ [message])]\<rparr>))
       \<and> (party_id \<noteq> config_my_id c \<and> length (communication_handlers c) \<le> unat party_id \<longrightarrow>
          Send party_id message c = (Inl out_of_range, c))"
  by (simp add: Send_def)

theorem Send_self_or_registered_peer_witness:
  "Send 1 ''buf'' two_party_core = (Inl (runtime_error ''Want to send message to myself''), two_party_core)
   \<and> Send 0 ''buf'' two_party_core =
       (Inr Unit, two_party_core\<lparr>communication_handlers := [Some [''buf''], None]\<rparr>)
   \<and> Send 2 ''buf'' two_party_core = (Inl out_of_range, two_party_core)"
  using Send_self_or_registered_peer[of two_party_core "''buf''" 0 "[]"]
        Send_self_or_registered_peer[of two_party_core "''buf''" 2 "[]"]
  by (simp add: two_party_core_def RegisterCommunicationHandlers_def Core_init_def)

text \<open>
  Claim C5 as stated fails for a party id without a handler: with two registered
  handlers, \<open>Send 5\<close> is not a send to the party itself, and it throws without handing the
  message to any handler.
\<close>

theorem Send_unregistered_peer_counterexample:
  "5 \<noteq> config_my_id two_party_core
   \<and> Send 5 ''buf'' two_party_core = (Inl out_of_range, two_party_core)"
  by (simp add: Send_def two_party_core_def RegisterCommunicationHandlers_def Core_init_def)

lemma perform_gate_slot:
  assumes "unat gid < length (gates c)"
  shows "length (gates c) \<le> length (gates (snd (perform x c)))
       \<and> gates (snd (perform x c)) ! unat gid =
           (if x = CallUnregisterGate gid then None else gates c ! unat gid)"
proof (cases x)
  case (CallUnregisterGate j)
  have "unat j \<noteq> unat gid" if "j \<noteq> gid"
    using that by (simp add: word_unat_eq_iff)
  then show ?thesis
    using assms CallUnregisterGate by (auto simp: UnregisterGate_def)
next
  case (CallRegisterNextGate g)
  then show ?thesis using assms by (simp add: RegisterNextGate_def nth_append)
next
  case (CallRegisterNextInputGate g)
  then show ?thesis
    using assms by (simp add: RegisterNextInputGate_def RegisterNextGate_def nth_append)
qed (simp_all add: NextGateId_def NextWireId_def NextArithmeticSharingId_def
       NextBooleanGMWSharingId_def RegisterCommunicationHandlers_def Send_def GetGate_def
       GetInputGates_def RegisterNextWire_def GetWire_def UnregisterWire_def
       AddToActiveQueue_def GetNextGateFromOnlineQueue_def IncrementEvaluatedGatesCounter_def
       GetNumOfEvaluatedGates_def GetTotalNumOfGates_def Let_def split: option.splits list.splits)

lemma perform_all_gate_slot:
  "unat gid < length (gates c) \<Longrightarrow>
   length (gates c) \<le> length (gates (snd (perform_all xs c)))
   \<and> gates (snd (perform_all xs c)) ! unat gid =
       (if CallUnregisterGate gid \<in> set xs then None else gates c ! unat gid)"
proof (induction xs arbitrary: c)
  case Nil
  then show ?case by simp
next
  case (Cons x xs)
  let ?c1 = "snd (perform x c)"
  have one: "length (gates c) \<le> length (gates ?c1)"
    "gates ?c1 ! unat gid = (if x = CallUnregisterGate gid then None else gates c ! unat gid)"
    using perform_gate_slot[OF Cons.prems, of x] by simp_all
  then have "unat gid < length (gates ?c1)" using Cons.prems by linarith
  from Cons.IH[OF this] one show ?case
    by (auto simp: case_prod_beta)
qed

lemma register_all_gates:
  "gates (snd (perform_all (map (\<lambda>g. CallRegisterNextGate (Some g)) gs) c)) = gates c @ map Some gs"
  by (induction gs arbitrary: c) (simp_all add: case_prod_beta RegisterNextGate_def)

text \<open>
  Claim C6. After \<open>RegisterNextGate g\<^sub>0, ..., RegisterNextGate g\<^sub>k\<^sub>-\<^sub>1\<close> from the initial state
  and any further calls of member functions, \<open>GetGate i\<close> for \<open>i < k\<close> does not throw; it
  returns \<open>g\<^sub>i\<close> when no \<open>UnregisterGate i\<close> is among the further calls and the null handle
  when one is, whatever was called after it.
\<close>

theorem registered_gate_lookup:
  fixes gs :: "'g list" and calls :: "('g, 'w, 'm) call list"
  assumes "unat gate_id < length gs"
  shows "GetGate gate_id
           (snd (perform_all calls
              (snd (perform_all (map (\<lambda>g. CallRegisterNextGate (Some g)) gs) (Core_init me))))) =
         (Inr (GateRef (if CallUnregisterGate gate_id \<in> set calls then None
                         else Some (gs ! unat gate_id))),
          snd (perform_all calls
              (snd (perform_all (map (\<lambda>g. CallRegisterNextGate (Some g)) gs) (Core_init me)))))"
proof -
  let ?ck = "snd (perform_all (map (\<lambda>g. CallRegisterNextGate (Some g)) gs)
                 (Core_init me :: ('g, 'w, 'm) Core))"
  have g: "gates ?ck = map Some gs"
    by (simp add: register_all_gates Core_init_def)
  then have "unat gate_id < length (gates ?ck)" using assms by simp
  from perform_all_gate_slot[OF this, of calls] g assms show ?thesis
    by (auto simp: GetGate_def)
qed

theorem registered_gate_lookup_witness:
  "GetGate 1
     (snd (perform_all [CallGetGate 1, CallUnregisterGate 1, CallRegisterNextGate (Some ''g2'')]
        (snd (perform_all (map (\<lambda>g. CallRegisterNextGate (Some g)) [''g0'', ''g1''])
           (Core_init 0 :: (string, unit, unit) Core))))) =
   (Inr (GateRef None),
    snd (perform_all [CallGetGate 1, CallUnregisterGate 1, CallRegisterNextGate (Some ''g2'')]
        (snd (perform_all (map (\<lambda>g. CallRegisterNextGate (Some g)) [''g0'', ''g1''])
           (Core_init 0 :: (string, unit, unit) Core)))))
   \<and> GetGate 0
     (snd (perform_all [CallGetGate 1, CallUnregisterGate 1, CallRegisterNextGate (Some ''g2'')]
        (snd (perform_all (map (\<lambda>g. CallRegisterNextGate (Some g)) [''g0'', ''g1''])
           (Core_init 0 :: (string, unit, unit) Core))))) =
   (Inr (GateRef (Some ''g0'')),
    snd (perform_all [CallGetGate 1, CallUnregisterGate 1, CallRegisterNextGate (Some ''g2'')]
        (snd (perform_all (map (\<lambda>g. CallRegisterNextGate (Some g)) [''g0'', ''g1''])
           (Core_init 0 :: (string, unit, unit) Core)))))"
  using registered_gate_lookup[where 'w = unit and 'm = unit, of 1 "[''g0'', ''g1'']"
          "[CallGetGate 1, CallUnregisterGate 1, CallRegisterNextGate (Some ''g2'')]" 0]
        registered_gate_lookup[where 'w = unit and 'm = unit, of 0 "[''g0'', ''g1'']"
          "[CallGetGate 1, CallUnregisterGate 1, CallRegisterNextGate (Some ''g2'')]" 0]
  by simp

section \<open>The lifetime of a provider: properties\<close>

lemma NeedSps_frame: "frame st' = frame st \<Longrightarrow> NeedSps st' = NeedSps st"
  by (simp add: frame_def NeedSps_def)

lemma finished_frame: "frame st' = frame st \<Longrightarrow> finished st' = finished st"
  by (simp add: frame_def)

lemma frame_record_event [simp]: "frame (record_event e st) = frame st"
  by (simp add: frame_def record_event_def)

lemma for_loop_frame:
  assumes "\<And>i s. frame (snd (body i s)) = frame s"
  shows "frame (snd (for_loop xs body s)) = frame s"
proof (induction xs arbitrary: s)
  case Nil
  then show ?case by simp
next
  case (Cons i xs)
  show ?case
  proof (cases "body i s")
    case (Pair e s')
    with assms[of i s] Cons.IH[of s'] show ?thesis
      by (cases e) simp_all
  qed
qed

lemma for_each_peer_frame:
  assumes "\<And>i s r. body i s = Some r \<Longrightarrow> frame (snd r) = frame s"
  shows "for_each_peer xs body s = Some r \<Longrightarrow> frame (snd r) = frame s"
proof (induction xs arbitrary: s)
  case Nil
  then show ?case by auto
next
  case (Cons i xs)
  then show ?case
    using assms[of i s] by (auto split: option.splits prod.splits)
qed

lemma keepsD: "keeps F r \<Longrightarrow> r = Some y \<Longrightarrow> frame (snd y) = F"
  by (auto simp: keeps_def split: prod.splits)

lemma keeps_Some [simp]: "keeps F (Some (e, st)) \<longleftrightarrow> frame st = F"
  by (simp add: keeps_def)

lemma keeps_None [simp]: "keeps F None"
  by (simp add: keeps_def)

lemma keeps_and_then:
  assumes "keeps F r" and "\<And>s. frame s = F \<Longrightarrow> keeps F (f s)"
  shows "keeps F (and_then r f)"
proof (cases r)
  case None
  then show ?thesis by (simp add: and_then_def)
next
  case (Some y)
  obtain e s where y: "y = (e, s)" by (cases y)
  with Some assms(1) have "frame s = F" by simp
  then show ?thesis
    using Some y assms(2)[of s] by (cases e) (simp_all add: and_then_def)
qed

lemma keeps_with_sender_list:
  assumes "\<And>v s. frame (store v s) = frame s" and "frame st = F"
  shows "keeps F (with_sender_list i st f store)"
  using assms
  by (auto simp: with_sender_list_def keeps_def frame_def split: sum.splits option.splits prod.splits)

lemma keeps_with_receiver_list:
  assumes "\<And>v s. frame (store v s) = frame s" and "frame st = F"
  shows "keeps F (with_receiver_list i st f store)"
  using assms
  by (auto simp: with_receiver_list_def keeps_def frame_def split: sum.splits option.splits prod.splits)

lemma keeps_for_each_peer:
  assumes "\<And>i s. frame s = F \<Longrightarrow> keeps F (body i s)"
  shows "frame s = F \<Longrightarrow> keeps F (for_each_peer xs body s)"
proof (induction xs arbitrary: s)
  case Nil
  then show ?case by simp
next
  case (Cons i xs)
  show ?case
  proof (cases "body i s")
    case None
    then show ?thesis by simp
  next
    case (Some y)
    obtain e s' where y: "y = (e, s')" by (cases y)
    with Some assms[OF Cons.prems, of i] have "frame s' = F" by simp
    then show ?thesis
      using Some y Cons.IH[of s'] by (cases e) simp_all
  qed
qed

lemma keeps_RegisterOts_peer: "frame st = F \<Longrightarrow> keeps F (RegisterOts_peer B i st)"
  unfolding RegisterOts_peer_def
  by (auto intro!: keeps_and_then keeps_with_sender_list keeps_with_receiver_list)

lemma keeps_ParseOutputs_peer: "frame st = F \<Longrightarrow> keeps F (ParseOutputs_peer B i st)"
  unfolding ParseOutputs_peer_def
  by (auto intro!: keeps_and_then keeps_with_sender_list keeps_with_receiver_list
        simp: frame_def)

lemma keeps_ParseOutputs: "frame st = F \<Longrightarrow> keeps F (ParseOutputs B st)"
  unfolding ParseOutputs_def by (rule keeps_for_each_peer[OF keeps_ParseOutputs_peer])

lemma keeps_storing:
  assumes "\<And>v. frame (store v) = F"
  shows "keeps F (storing r store)"
  using assms by (cases r) (simp add: storing_def)

lemma keeps_RegisterOts: "frame st = F \<Longrightarrow> keeps F (RegisterOts rnd B st)"
  unfolding RegisterOts_def
  by (intro keeps_and_then keeps_storing keeps_for_each_peer[OF keeps_RegisterOts_peer])
     (simp_all add: frame_def)

lemma keeps_PreSetup: "frame st = F \<Longrightarrow> keeps F (PreSetup rnd B st)"
  unfolding PreSetup_def
  by (auto intro!: keeps_and_then keeps_RegisterOts)

lemma Setup_send_frame: "frame (snd (Setup_send i s)) = frame s"
  by (simp add: Setup_send_def frame_def at_def Let_def)

text \<open>
  Claim C9, as amended. \<open>NeedSps\<close> compares the sum of the five counts, taken in
  \<open>std::size_t\<close>, with zero. Whenever the five counts add up to less than \<open>2 ^ 64\<close>, it is
  true if and only if at least one of the counts is greater than zero.
\<close>

theorem NeedSps_iff_some_request:
  assumes "unat (number_of_sps_8 st) + unat (number_of_sps_16 st) + unat (number_of_sps_32 st)
             + unat (number_of_sps_64 st) + unat (number_of_sps_128 st) < 2 ^ 64"
  shows "NeedSps st \<longleftrightarrow>
           0 < number_of_sps_8 st \<or> 0 < number_of_sps_16 st \<or> 0 < number_of_sps_32 st
             \<or> 0 < number_of_sps_64 st \<or> 0 < number_of_sps_128 st"
proof -
  let ?s = "number_of_sps_8 st + number_of_sps_16 st + number_of_sps_32 st + number_of_sps_64 st
              + number_of_sps_128 st"
  have "unat ?s = (unat (number_of_sps_8 st) + unat (number_of_sps_16 st)
          + unat (number_of_sps_32 st) + unat (number_of_sps_64 st)
          + unat (number_of_sps_128 st)) mod 2 ^ 64"
    by (simp add: unat_word_ariths mod_simps)
  with assms have "unat ?s = unat (number_of_sps_8 st) + unat (number_of_sps_16 st)
          + unat (number_of_sps_32 st) + unat (number_of_sps_64 st)
          + unat (number_of_sps_128 st)"
    by simp
  moreover have "0 < w \<longleftrightarrow> 0 < unat w" for w :: size_t
    by (simp add: word_less_nat_alt)
  ultimately show ?thesis
    unfolding NeedSps_def by auto
qed

theorem NeedSps_iff_some_request_witness:
  "NeedSps (requested \<lparr>req_8 = 0, req_16 = 0, req_32 = 2, req_64 = 0, req_128 = 0\<rparr>
              (SpProviderFromOts_init 3 0))
   \<and> \<not> NeedSps (requested \<lparr>req_8 = 0, req_16 = 0, req_32 = 0, req_64 = 0, req_128 = 0\<rparr>
              (SpProviderFromOts_init 3 0))"
  using NeedSps_iff_some_request[of "requested \<lparr>req_8 = 0, req_16 = 0, req_32 = 2, req_64 = 0,
            req_128 = 0\<rparr> (SpProviderFromOts_init 3 0)"]
    NeedSps_iff_some_request[of "requested \<lparr>req_8 = 0, req_16 = 0, req_32 = 0, req_64 = 0,
            req_128 = 0\<rparr> (SpProviderFromOts_init 3 0)"]
  by (simp add: requested_def SpProviderFromOts_init_def)

text \<open>
  Claim C9 as stated fails where the sum wraps around: with \<open>2 ^ 63\<close> pairs of 8 bits and
  \<open>2 ^ 63\<close> pairs of 16 bits requested, \<open>NeedSps\<close> is false.
\<close>

theorem NeedSps_sum_wraps_counterexample:
  "0 < (9223372036854775808 :: size_t)
   \<and> \<not> NeedSps (requested \<lparr>req_8 = 9223372036854775808, req_16 = 9223372036854775808,
                  req_32 = 0, req_64 = 0, req_128 = 0\<rparr> (SpProviderFromOts_init 2 0))"
  by (simp add: NeedSps_def requested_def SpProviderFromOts_init_def)

lemma lifetime_nth_0 [simp]: "lifetime B calls st ! 0 = st"
  by (cases calls) simp_all

lemma lifetime_not_Nil [simp]: "lifetime B calls st \<noteq> []"
  by (cases calls) simp_all

lemma Setup_success:
  assumes "NeedSps st"
    and "for_loop [0..<ot_providers_size st] Setup_send (record_event (RecordStart kSpSetup) st)
           = (None, sent)"
    and "ParseOutputs B sent = Some (None, parsed)"
  shows "Setup B st
           = Some (None, parsed\<lparr>finished := True,
                           events := events parsed
                             @ [LockMutex, SetFinished, UnlockMutex, NotifyAll,
                                RecordEnd kSpSetup]\<rparr>)"
  using assms by (simp add: Setup_def record_event_def and_then_def)

lemma Setup_cases:
  assumes "Setup B st = Some (e, st')"
  shows "frame st' = frame st
       \<or> (NeedSps st \<and> e = None
           \<and> (\<exists>sent parsed.
                 for_loop [0..<ot_providers_size st] Setup_send
                   (record_event (RecordStart kSpSetup) st) = (None, sent)
                 \<and> ParseOutputs B sent = Some (None, parsed)
                 \<and> frame parsed = frame st
                 \<and> st' = parsed\<lparr>finished := True,
                             events := events parsed
                               @ [LockMutex, SetFinished, UnlockMutex, NotifyAll,
                                  RecordEnd kSpSetup]\<rparr>))"
proof (cases "NeedSps st")
  case False
  with assms show ?thesis by (simp add: Setup_def)
next
  case True
  let ?l = "for_loop [0..<ot_providers_size st] Setup_send (record_event (RecordStart kSpSetup) st)"
  obtain e1 sent where l: "?l = (e1, sent)" by (cases ?l)
  have fs: "frame sent = frame st"
    using for_loop_frame[of Setup_send "[0..<ot_providers_size st]"
            "record_event (RecordStart kSpSetup) st", OF Setup_send_frame] l
    by simp
  show ?thesis
  proof (cases e1)
    case (Some err)
    with assms True l fs show ?thesis by (simp add: Setup_def)
  next
    case None
    note e1 = None
    show ?thesis
    proof (cases "ParseOutputs B sent")
      case None
      with assms True l e1 show ?thesis by (simp add: Setup_def and_then_def)
    next
      case (Some y)
      obtain e2 parsed where y: "y = (e2, parsed)" by (cases y)
      have fp: "frame parsed = frame st"
        using keepsD[OF keeps_ParseOutputs[OF fs] Some] y by simp
      show ?thesis
      proof (cases e2)
        case (Some err)
        with assms True l e1 \<open>ParseOutputs B sent = Some y\<close> y fp show ?thesis
          by (simp add: Setup_def and_then_def)
      next
        case None
        with l e1 \<open>ParseOutputs B sent = Some y\<close> y
        have "Setup B st
           = Some (None, parsed\<lparr>finished := True,
                           events := events parsed
                             @ [LockMutex, SetFinished, UnlockMutex, NotifyAll,
                                RecordEnd kSpSetup]\<rparr>)"
          by (intro Setup_success[OF True]) simp_all
        with assms have "e = None"
          and "st' = parsed\<lparr>finished := True,
                             events := events parsed
                               @ [LockMutex, SetFinished, UnlockMutex, NotifyAll,
                                  RecordEnd kSpSetup]\<rparr>"
          by simp_all
        with True None l e1 \<open>ParseOutputs B sent = Some y\<close> y fp show ?thesis
          by blast
      qed
    qed
  qed
qed

lemma sp_perform_cases:
  assumes "sp_perform B x st = Some (e, st')"
  shows "frame st' = frame st
       \<or> (x = CallSetup \<and> NeedSps st \<and> e = None
           \<and> (\<exists>sent parsed.
                 for_loop [0..<ot_providers_size st] Setup_send
                   (record_event (RecordStart kSpSetup) st) = (None, sent)
                 \<and> ParseOutputs B sent = Some (None, parsed)
                 \<and> frame parsed = frame st
                 \<and> st' = parsed\<lparr>finished := True,
                             events := events parsed
                               @ [LockMutex, SetFinished, UnlockMutex, NotifyAll,
                                  RecordEnd kSpSetup]\<rparr>))"
proof (cases x)
  case (CallPreSetup rnd)
  with assms keepsD[OF keeps_PreSetup[OF refl, where rnd = rnd and B = B and st = st]] show ?thesis by auto
next
  case CallSetup
  with assms Setup_cases[of B st e st'] show ?thesis by simp
next
  case (OtLayerWrites a b)
  with assms show ?thesis by (auto simp: frame_def)
qed

lemma sp_perform_finished:
  "sp_perform B x st = Some (e, st') \<Longrightarrow> finished st \<Longrightarrow> finished st'"
  using sp_perform_cases[of B x st e st'] by (auto simp: frame_def)

lemma lifetime_stays_finished:
  "finished st \<Longrightarrow> s \<in> set (lifetime B calls st) \<Longrightarrow> finished s"
proof (induction calls arbitrary: st)
  case Nil
  then show ?case by simp
next
  case (Cons x xs)
  show ?case
  proof (cases "sp_perform B x st")
    case None
    with Cons.prems show ?thesis by simp
  next
    case (Some y)
    obtain e st' where y: "y = (e, st')" by (cases y)
    from sp_perform_finished[of B x st e st'] Some y Cons.prems(1) have "finished st'" by simp
    with Cons.IH[of st'] Cons.prems Some y show ?thesis by auto
  qed
qed

lemma transitions_all_True: "\<forall>b\<in>set bs. b \<Longrightarrow> transitions bs = 0"
  by (induction bs rule: transitions.induct) auto

lemma lifetime_monotone:
  "sorted_wrt (\<lambda>x y. x \<longrightarrow> y) (map finished (lifetime B calls st))"
proof (induction calls arbitrary: st)
  case Nil
  then show ?case by simp
next
  case (Cons x xs)
  show ?case
  proof (cases "sp_perform B x st")
    case None
    then show ?thesis by simp
  next
    case (Some y)
    obtain e st' where y: "y = (e, st')" by (cases y)
    have "finished s" if "finished st" "s \<in> set (lifetime B xs st')" for s
      using that sp_perform_finished[of B x st e st'] Some y lifetime_stays_finished[of st' s B xs]
      by simp
    with Cons.IH[of st'] Some y show ?thesis by auto
  qed
qed

lemma lifetime_transitions: "transitions (map finished (lifetime B calls st)) \<le> 1"
proof (induction calls arbitrary: st)
  case Nil
  then show ?case by simp
next
  case (Cons x xs)
  show ?case
  proof (cases "sp_perform B x st")
    case None
    then show ?thesis by simp
  next
    case (Some y)
    obtain e st' where y: "y = (e, st')" by (cases y)
    obtain rest where r: "lifetime B xs st' = st' # rest"
      by (cases xs) auto
    show ?thesis
    proof (cases "finished st'")
      case True
      then have "transitions (map finished (lifetime B xs st')) = 0"
        by (intro transitions_all_True) (auto dest: lifetime_stays_finished)
      with Some y r show ?thesis by simp
    next
      case False
      with Some y r Cons.IH[of st'] show ?thesis by simp
    qed
  qed
qed

lemma lifetime_step:
  assumes "Suc i < length (lifetime B calls st)"
  shows "i < length calls
       \<and> (\<exists>e. sp_perform B (calls ! i) (lifetime B calls st ! i)
                = Some (e, lifetime B calls st ! Suc i))"
  using assms
proof (induction calls arbitrary: st i)
  case Nil
  then show ?case by simp
next
  case (Cons x xs)
  show ?case
  proof (cases "sp_perform B x st")
    case None
    with Cons.prems show ?thesis by simp
  next
    case (Some y)
    obtain e st' where y: "y = (e, st')" by (cases y)
    show ?thesis
    proof (cases i)
      case 0
      with Some y show ?thesis by simp
    next
      case (Suc k)
      with Some y Cons.prems Cons.IH[of k st'] show ?thesis by simp
    qed
  qed
qed

lemma transitions_pos_iff:
  "0 < transitions bs \<longleftrightarrow> (\<exists>i. Suc i < length bs \<and> \<not> bs ! i \<and> bs ! Suc i)"
proof (induction bs rule: transitions.induct)
  case (1 x y rest)
  have "(\<exists>i. Suc i < length (x # y # rest) \<and> \<not> (x # y # rest) ! i \<and> (x # y # rest) ! Suc i)
          \<longleftrightarrow> (\<not> x \<and> y) \<or> (\<exists>i. Suc i < length (y # rest) \<and> \<not> (y # rest) ! i \<and> (y # rest) ! Suc i)"
    (is "?L \<longleftrightarrow> ?R")
  proof
    assume ?L
    then obtain i where i: "Suc i < length (x # y # rest)" "\<not> (x # y # rest) ! i"
      "(x # y # rest) ! Suc i" by blast
    show ?R
    proof (cases i)
      case 0
      with i show ?thesis by simp
    next
      case (Suc j)
      with i have "Suc j < length (y # rest) \<and> \<not> (y # rest) ! j \<and> (y # rest) ! Suc j" by simp
      then show ?thesis by blast
    qed
  next
    assume ?R
    then show ?L
    proof
      assume "\<not> x \<and> y"
      then have "Suc 0 < length (x # y # rest) \<and> \<not> (x # y # rest) ! 0 \<and> (x # y # rest) ! Suc 0"
        by simp
      then show ?L by blast
    next
      assume "\<exists>i. Suc i < length (y # rest) \<and> \<not> (y # rest) ! i \<and> (y # rest) ! Suc i"
      then obtain i where "Suc i < length (y # rest) \<and> \<not> (y # rest) ! i \<and> (y # rest) ! Suc i"
        by blast
      then have "Suc (Suc i) < length (x # y # rest) \<and> \<not> (x # y # rest) ! Suc i
                   \<and> (x # y # rest) ! Suc (Suc i)"
        by simp
      then show ?L by blast
    qed
  qed
  with 1 show ?case by auto
qed simp_all

lemma first_change:
  "\<not> bs ! 0 \<Longrightarrow> k < length bs \<Longrightarrow> bs ! k \<Longrightarrow> \<exists>i. Suc i < length bs \<and> \<not> bs ! i \<and> bs ! Suc i"
proof (induction k)
  case 0
  then show ?case by simp
next
  case (Suc k)
  show ?case
  proof (cases "bs ! k")
    case True
    with Suc show ?thesis by simp
  next
    case False
    with Suc.prems have "Suc k < length bs \<and> \<not> bs ! k \<and> bs ! Suc k" by simp
    then show ?thesis by blast
  qed
qed

lemma lifetime_change:
  assumes "Suc i < length (lifetime B calls st)"
    and "finished (lifetime B calls st ! Suc i) \<noteq> finished (lifetime B calls st ! i)"
  shows "calls ! i = CallSetup \<and> NeedSps (lifetime B calls st ! i)
       \<and> (\<exists>sent parsed.
             for_loop [0..<ot_providers_size (lifetime B calls st ! i)] Setup_send
               (record_event (RecordStart kSpSetup) (lifetime B calls st ! i)) = (None, sent)
             \<and> ParseOutputs B sent = Some (None, parsed)
             \<and> lifetime B calls st ! Suc i
                 = parsed\<lparr>finished := True,
                          events := events parsed
                            @ [LockMutex, SetFinished, UnlockMutex, NotifyAll,
                               RecordEnd kSpSetup]\<rparr>)"
proof -
  let ?s = "lifetime B calls st ! i" and ?s' = "lifetime B calls st ! Suc i"
  from lifetime_step[OF assms(1)] obtain e
    where p: "sp_perform B (calls ! i) ?s = Some (e, ?s')" by blast
  from sp_perform_cases[OF p] assms(2) finished_frame[of ?s' ?s]
  show ?thesis by blast
qed

lemma Setup_returns_None:
  assumes "NeedSps st" and "Setup B st = Some (None, st')"
  shows "\<exists>sent parsed.
           for_loop [0..<ot_providers_size st] Setup_send
             (record_event (RecordStart kSpSetup) st) = (None, sent)
           \<and> ParseOutputs B sent = Some (None, parsed)
           \<and> st' = parsed\<lparr>finished := True,
                       events := events parsed
                         @ [LockMutex, SetFinished, UnlockMutex, NotifyAll,
                            RecordEnd kSpSetup]\<rparr>"
  using assms
  by (auto simp: Setup_def and_then_def record_event_def split: prod.splits option.splits)

lemma lifetime_successful_Setup:
  assumes "Suc i < length (lifetime B calls st)" and "calls ! i = CallSetup"
    and "NeedSps (lifetime B calls st ! i)"
    and "Setup B (lifetime B calls st ! i) = Some (None, st')"
  shows "finished (lifetime B calls st ! Suc i)"
proof -
  let ?s = "lifetime B calls st ! i" and ?s' = "lifetime B calls st ! Suc i"
  from lifetime_step[OF assms(1)] assms(2) obtain e
    where "Setup B ?s = Some (e, ?s')" by auto
  with assms(4) have s': "?s' = st'" by simp
  from Setup_returns_None[OF assms(3,4)] have "finished st'" by auto
  with s' show ?thesis by simp
qed

lemma lifetime_transitions_eq:
  "transitions (map finished (lifetime B calls st))
     = (if \<not> finished st
           \<and> (\<exists>i. Suc i < length (lifetime B calls st) \<and> calls ! i = CallSetup
                  \<and> NeedSps (lifetime B calls st ! i)
                  \<and> (\<exists>st'. Setup B (lifetime B calls st ! i) = Some (None, st')))
        then 1 else 0)"
proof -
  let ?L = "lifetime B calls st"
  let ?bs = "map finished ?L"
  let ?ex = "\<exists>i. Suc i < length ?L \<and> calls ! i = CallSetup \<and> NeedSps (?L ! i)
                  \<and> (\<exists>st'. Setup B (?L ! i) = Some (None, st'))"
  have le: "transitions ?bs \<le> 1" by (rule lifetime_transitions)
  have pos: "0 < transitions ?bs \<longleftrightarrow> \<not> finished st \<and> ?ex"
  proof
    assume "0 < transitions ?bs"
    then obtain i where i: "Suc i < length ?L" "\<not> finished (?L ! i)" "finished (?L ! Suc i)"
      by (auto simp: transitions_pos_iff)
    then have "finished (?L ! Suc i) \<noteq> finished (?L ! i)" by simp
    from lifetime_change[OF i(1) this] Setup_success[of "?L ! i" _ B]
    have "calls ! i = CallSetup \<and> NeedSps (?L ! i) \<and> (\<exists>st'. Setup B (?L ! i) = Some (None, st'))"
      by blast
    with i(1) have ?ex by blast
    moreover have "\<not> finished st"
    proof
      assume "finished st"
      moreover have "?L ! i \<in> set ?L" using i(1) by simp
      ultimately have "finished (?L ! i)" by (rule lifetime_stays_finished)
      with i(2) show False by simp
    qed
    ultimately show "\<not> finished st \<and> ?ex" by simp
  next
    assume a: "\<not> finished st \<and> ?ex"
    then obtain i st' where i: "Suc i < length ?L" "calls ! i = CallSetup" "NeedSps (?L ! i)"
      "Setup B (?L ! i) = Some (None, st')" by blast
    from lifetime_successful_Setup[OF this] have "?bs ! Suc i" using i(1) by simp
    moreover have "\<not> ?bs ! 0" using a by simp
    moreover have "Suc i < length ?bs" using i(1) by simp
    ultimately have "\<exists>j. Suc j < length ?bs \<and> \<not> ?bs ! j \<and> ?bs ! Suc j"
      by (intro first_change)
    then show "0 < transitions ?bs" by (simp only: transitions_pos_iff)
  qed
  show ?thesis
  proof (cases "\<not> finished st \<and> ?ex")
    case True
    with pos have "0 < transitions ?bs" by blast
    with le have "transitions ?bs = 1" by simp
    with True show ?thesis by simp
  next
    case False
    with pos have "transitions ?bs = 0" by simp
    with False show ?thesis by auto
  qed
qed

text \<open>
  Claim C4, as amended. Over any lifetime of a provider (calls of \<open>PreSetup\<close> and \<open>Setup\<close>
  in any order, the OT layer writing the handles in between), the completion flag is
  monotonic. It changes from false to true exactly once when the lifetime starts with the
  flag false and holds a call of \<open>Setup\<close> with \<open>NeedSps\<close> true that returns without an
  error, and it never changes otherwise. On that path of \<open>Setup\<close>, once the loop over the
  peers and \<open>ParseOutputs\<close> have completed, the completion mutex is locked, the flag is
  set, the mutex is released, all waiters are notified and the end of the setup is
  recorded. The flag changes in no other step of a lifetime.
\<close>

theorem completion_flag_set_by_successful_Setup_only:
  "sorted_wrt (\<lambda>x y. x \<longrightarrow> y) (map finished (lifetime B calls st))
   \<and> transitions (map finished (lifetime B calls st))
       = (if \<not> finished st
             \<and> (\<exists>i. Suc i < length (lifetime B calls st) \<and> calls ! i = CallSetup
                    \<and> NeedSps (lifetime B calls st ! i)
                    \<and> (\<exists>st'. Setup B (lifetime B calls st ! i) = Some (None, st')))
          then 1 else 0)
   \<and> (\<forall>s sent parsed.
          NeedSps s
          \<and> for_loop [0..<ot_providers_size s] Setup_send (record_event (RecordStart kSpSetup) s)
                = (None, sent)
          \<and> ParseOutputs B sent = Some (None, parsed) \<longrightarrow>
          Setup B s
            = Some (None, parsed\<lparr>finished := True,
                             events := events parsed
                               @ [LockMutex, SetFinished, UnlockMutex, NotifyAll,
                                  RecordEnd kSpSetup]\<rparr>))
   \<and> (\<forall>i. Suc i < length (lifetime B calls st)
          \<and> finished (lifetime B calls st ! Suc i) \<noteq> finished (lifetime B calls st ! i) \<longrightarrow>
        calls ! i = CallSetup \<and> NeedSps (lifetime B calls st ! i)
        \<and> (\<exists>sent parsed.
              for_loop [0..<ot_providers_size (lifetime B calls st ! i)] Setup_send
                (record_event (RecordStart kSpSetup) (lifetime B calls st ! i)) = (None, sent)
              \<and> ParseOutputs B sent = Some (None, parsed)
              \<and> \<not> finished parsed
              \<and> lifetime B calls st ! Suc i
                  = parsed\<lparr>finished := True,
                           events := events parsed
                             @ [LockMutex, SetFinished, UnlockMutex, NotifyAll,
                                RecordEnd kSpSetup]\<rparr>))"
proof (intro conjI allI impI)
  show "sorted_wrt (\<lambda>x y. x \<longrightarrow> y) (map finished (lifetime B calls st))"
    by (rule lifetime_monotone)
  show "transitions (map finished (lifetime B calls st))
       = (if \<not> finished st
             \<and> (\<exists>i. Suc i < length (lifetime B calls st) \<and> calls ! i = CallSetup
                    \<and> NeedSps (lifetime B calls st ! i)
                    \<and> (\<exists>st'. Setup B (lifetime B calls st ! i) = Some (None, st')))
          then 1 else 0)"
    by (rule lifetime_transitions_eq)
next
  fix s sent parsed
  assume "NeedSps s
          \<and> for_loop [0..<ot_providers_size s] Setup_send (record_event (RecordStart kSpSetup) s)
                = (None, sent)
          \<and> ParseOutputs B sent = Some (None, parsed)"
  then have "NeedSps s"
    and "for_loop [0..<ot_providers_size s] Setup_send (record_event (RecordStart kSpSetup) s)
                = (None, sent)"
    and "ParseOutputs B sent = Some (None, parsed)"
    by blast+
  then show "Setup B s
            = Some (None, parsed\<lparr>finished := True,
                             events := events parsed
                               @ [LockMutex, SetFinished, UnlockMutex, NotifyAll,
                                  RecordEnd kSpSetup]\<rparr>)"
    by (rule Setup_success)
next
  fix i
  assume a: "Suc i < length (lifetime B calls st)
          \<and> finished (lifetime B calls st ! Suc i) \<noteq> finished (lifetime B calls st ! i)"
  let ?s = "lifetime B calls st ! i" and ?s' = "lifetime B calls st ! Suc i"
  from a have 1: "Suc i < length (lifetime B calls st)" and 2: "finished ?s' \<noteq> finished ?s"
    by simp_all
  from lifetime_step[OF 1] obtain e
    where p: "sp_perform B (calls ! i) ?s = Some (e, ?s')" by blast
  from sp_perform_cases[OF p] 2 finished_frame[of ?s' ?s]
  obtain sent parsed where c: "calls ! i = CallSetup" "NeedSps ?s"
    "for_loop [0..<ot_providers_size ?s] Setup_send (record_event (RecordStart kSpSetup) ?s)
       = (None, sent)"
    "ParseOutputs B sent = Some (None, parsed)" "frame parsed = frame ?s"
    "?s' = parsed\<lparr>finished := True,
                   events := events parsed
                     @ [LockMutex, SetFinished, UnlockMutex, NotifyAll, RecordEnd kSpSetup]\<rparr>"
    by blast
  from c(6) have "finished ?s'" by simp
  with 2 have "\<not> finished ?s" by simp
  with c(5) have nf: "\<not> finished parsed" by (simp add: frame_def)
  from c(1,2) show "calls ! i = CallSetup" "NeedSps ?s" by simp_all
  from c(3,4,6) nf
  show "\<exists>sent parsed.
              for_loop [0..<ot_providers_size ?s] Setup_send
                (record_event (RecordStart kSpSetup) ?s) = (None, sent)
              \<and> ParseOutputs B sent = Some (None, parsed)
              \<and> \<not> finished parsed
              \<and> ?s' = parsed\<lparr>finished := True,
                           events := events parsed
                             @ [LockMutex, SetFinished, UnlockMutex, NotifyAll,
                                RecordEnd kSpSetup]\<rparr>"
    by blast
qed

lemma idle_step:
  assumes "\<not> NeedSps st" "\<not> finished st" "sp_perform B x st = Some (e, st')"
  shows "\<not> NeedSps st' \<and> \<not> finished st'"
  using sp_perform_cases[OF assms(3)] assms(1,2) NeedSps_frame[of st' st] finished_frame[of st' st]
  by auto

text \<open>
  Claim C10. When \<open>NeedSps\<close> is false and the completion flag is false, then in every
  state of every lifetime of the provider a call of \<open>Setup\<close> returns at once and leaves the
  provider as it is, the flag is false and the predicate of the completion condition is
  false: a thread that waits for the completion condition is never released.
\<close>

theorem no_request_never_finishes:
  assumes "\<not> NeedSps st" and "\<not> finished st"
  shows "\<forall>st' \<in> set (lifetime B calls st).
           Setup B st' = Some (None, st') \<and> \<not> finished st' \<and> \<not> completion_condition st'"
  using assms
proof (induction calls arbitrary: st)
  case Nil
  then show ?case by (simp add: Setup_def completion_condition_def)
next
  case (Cons x xs)
  have here: "Setup B st = Some (None, st) \<and> \<not> finished st \<and> \<not> completion_condition st"
    using Cons.prems by (simp add: Setup_def completion_condition_def)
  show ?case
  proof (cases "sp_perform B x st")
    case None
    with here show ?thesis by simp
  next
    case (Some y)
    obtain e st' where y: "y = (e, st')" by (cases y)
    from idle_step[OF Cons.prems] Some y have "\<not> NeedSps st' \<and> \<not> finished st'" by simp
    with Cons.IH[of st'] here Some y show ?thesis by simp
  qed
qed

text \<open>
  Claim C4 as stated fails for a provider that is asked for nothing: \<open>PreSetup\<close> and
  \<open>Setup\<close> return at once and the flag makes no transition, not one.
\<close>

theorem completion_flag_never_set_counterexample:
  "map finished (lifetime 1 [CallPreSetup zero_random, CallSetup] (SpProviderFromOts_init 2 0))
     = [False, False, False]
   \<and> transitions
       (map finished (lifetime 1 [CallPreSetup zero_random, CallSetup] (SpProviderFromOts_init 2 0)))
       = 0"
  by (simp add: PreSetup_def Setup_def NeedSps_def SpProviderFromOts_init_def)

theorem no_request_never_finishes_witness:
  "Setup 1 (last (lifetime 1 [CallPreSetup zero_random, CallSetup, CallSetup]
              (SpProviderFromOts_init 2 0)))
     = Some (None, last (lifetime 1 [CallPreSetup zero_random, CallSetup, CallSetup]
              (SpProviderFromOts_init 2 0)))
   \<and> \<not> finished (last (lifetime 1 [CallPreSetup zero_random, CallSetup, CallSetup]
              (SpProviderFromOts_init 2 0)))
   \<and> \<not> completion_condition (last (lifetime 1 [CallPreSetup zero_random, CallSetup, CallSetup]
              (SpProviderFromOts_init 2 0)))"
proof -
  have "\<not> NeedSps (SpProviderFromOts_init 2 0)" "\<not> finished (SpProviderFromOts_init 2 0)"
    by (simp_all add: NeedSps_def SpProviderFromOts_init_def)
  from no_request_never_finishes[OF this, of 1 "[CallPreSetup zero_random, CallSetup, CallSetup]"]
  show ?thesis
    using last_in_set[OF lifetime_not_Nil] by blast
qed


section \<open>The active queue under concurrency: a schedule\<close>

text \<open>
  Claim C8 does not hold of the code. \<open>GetNextGateFromOnlineQueue\<close> reads \<open>size()\<close> and
  \<open>front()\<close> before it takes the mutex. Two producers push the gates 7 and 9; two
  consumers then both pass the size check and both read the front before either of them
  locks and pops. Both return 7, and 9 is removed from the queue without being returned.
\<close>

theorem two_consumers_pop_the_same_gate:
  "run_schedule [0, 0, 0, 1, 1, 1, 2, 3, 2, 3, 2, 3, 2, 2, 2, 3, 3, 3]
     (queue_system_init [Producer_lock 7, Producer_lock 9, Consumer_size, Consumer_size])
   = Some \<lparr> q_active_gates = [], q_mutex = None, q_trace_log = [7, 9],
            q_threads = [Producer_done, Producer_done, Consumer_returned 7, Consumer_returned 7] \<rparr>"
  by (simp add: queue_system_init_def set_thread_def)

end
